theory Spec2Isabelle
  imports Main "HOL-Library.AList"
begin

section \<open>JavaScript values\<close>

text \<open>
  The block type registry of \<^verbatim>\<open>packages/blocks/src/store/actions.js\<close> works on
  loosely typed JavaScript values: a block type is an object literal, and the filter chain
  may hand back any value at all. The universe below has the values the module can tell
  apart. An object is its list of own enumerable properties in enumeration order; it is a
  data record (no accessors, no proxies, the conversion methods of \<^verbatim>\<open>Object.prototype\<close>
  not shadowed). An array has its elements and nothing else. A function is opaque: the
  module only asks whether a value is one; it is identified by its source text, which is
  what converting it to a string gives. \<open>JNum n\<close> stands for the integer \<open>n\<close>
  (of magnitude below \<open>2^53\<close>); other numbers are left out.

  Values are immutable here, and objects have no identity. What the filter chain changes
  in place is tracked for the submitted block type, which the module reads again (line 95)
  after the chain has run on its shallow copy: the chain returns its result together with
  the submitted block type as it leaves it. A later pass of the chain that changes in
  place the settings returned by the live pass, or the deprecations, is outside this
  universe.
\<close>

datatype jsval =
    JUndefined
  | JNull
  | JBool bool
  | JNum int
  | JStr string
  | JFunc string
  | JArr "jsval list"
  | JObj "(string \<times> jsval) list"

type_synonym props = "(string \<times> jsval) list"

text \<open>A fault is a thrown exception: a \<^verbatim>\<open>TypeError\<close> of the language, or what a
  function held in the data throws when the module calls it.\<close>

datatype fault = TypeError | Thrown jsval

fun isNullish :: "jsval \<Rightarrow> bool" where
  "isNullish JUndefined = True"
| "isNullish JNull = True"
| "isNullish _ = False"

text \<open>\<^verbatim>\<open>typeof v\<close>.\<close>

fun typeof :: "jsval \<Rightarrow> string" where
  "typeof JUndefined = ''undefined''"
| "typeof JNull = ''object''"
| "typeof (JBool _) = ''boolean''"
| "typeof (JNum _) = ''number''"
| "typeof (JStr _) = ''string''"
| "typeof (JFunc _) = ''function''"
| "typeof (JArr _) = ''object''"
| "typeof (JObj _) = ''object''"

text \<open>The truth value of \<open>v\<close> in a condition.\<close>

fun truthy :: "jsval \<Rightarrow> bool" where
  "truthy JUndefined = False"
| "truthy JNull = False"
| "truthy (JBool b) = b"
| "truthy (JNum n) = (n \<noteq> 0)"
| "truthy (JStr s) = (s \<noteq> [])"
| "truthy (JFunc _) = True"
| "truthy (JArr _) = True"
| "truthy (JObj _) = True"

text \<open>\<^verbatim>\<open>function isFunction( maybeFunc ) { return typeof maybeFunc === 'function'; }\<close>\<close>

definition isFunction :: "jsval \<Rightarrow> bool" where
  "isFunction maybeFunc = (typeof maybeFunc = ''function'')"

text \<open>The values of class \<^verbatim>\<open>Object\<close>: not arrays, functions, \<^verbatim>\<open>null\<close> or
  primitives.\<close>

fun isObject :: "jsval \<Rightarrow> bool" where
  "isObject (JObj _) = True"
| "isObject _ = False"

subsection \<open>Properties\<close>

text \<open>Reading \<^verbatim>\<open>v.k\<close> from a value that is neither \<^verbatim>\<open>null\<close> nor
  \<^verbatim>\<open>undefined\<close>. The module reads \<^verbatim>\<open>name\<close>, \<^verbatim>\<open>description\<close>,
  \<^verbatim>\<open>deprecated\<close>, \<^verbatim>\<open>save\<close>, \<^verbatim>\<open>edit\<close>, \<^verbatim>\<open>category\<close>,
  \<^verbatim>\<open>title\<close> and \<^verbatim>\<open>icon\<close>; none of them is a built-in member of a string, a
  number, a boolean, an array or a function, so there they read \<^verbatim>\<open>undefined\<close>.\<close>

fun getProp :: "jsval \<Rightarrow> string \<Rightarrow> jsval" where
  "getProp (JObj ps) k = (case map_of ps k of Some v \<Rightarrow> v | None \<Rightarrow> JUndefined)"
| "getProp _ k = JUndefined"

text \<open>Reading \<^verbatim>\<open>v.k\<close> from any value: a \<^verbatim>\<open>TypeError\<close> on \<^verbatim>\<open>null\<close> and
  \<^verbatim>\<open>undefined\<close>.\<close>

definition readProp :: "jsval \<Rightarrow> string \<Rightarrow> fault + jsval" where
  "readProp v k = (if isNullish v then Inl TypeError else Inr (getProp v k))"

text \<open>\<^verbatim>\<open>k in v\<close>, for an object \<open>v\<close>.\<close>

fun hasProp :: "string \<Rightarrow> jsval \<Rightarrow> bool" where
  "hasProp k (JObj ps) = (k \<in> set (map fst ps))"
| "hasProp k _ = False"

text \<open>\<^verbatim>\<open>v.k = x\<close> and \<^verbatim>\<open>delete v.k\<close>. The module assigns to and deletes from
  \<^verbatim>\<open>settings\<close> only where \<^verbatim>\<open>settings\<close> is an object: an existing key keeps its
  place, a new key goes last. (JavaScript enumerates keys that are array indices first;
  that is not tracked, and nothing below depends on the order of the keys of one object.)\<close>

fun setProp :: "jsval \<Rightarrow> string \<Rightarrow> jsval \<Rightarrow> jsval" where
  "setProp (JObj ps) k x = JObj (AList.update k x ps)"
| "setProp v k x = v"

fun deleteProp :: "jsval \<Rightarrow> string \<Rightarrow> jsval" where
  "deleteProp (JObj ps) k = JObj (AList.delete k ps)"
| "deleteProp v k = v"

text \<open>The decimal numeral of an array index, the key of an element.\<close>

fun decimal :: "nat \<Rightarrow> string" where
  "decimal n =
     (if n < 10 then [char_of (48 + n)]
      else decimal (n div 10) @ [char_of (48 + n mod 10)])"

declare decimal.simps [simp del]

definition indexed :: "jsval list \<Rightarrow> props" where
  "indexed xs = zip (map decimal [0..<length xs]) xs"

text \<open>The own enumerable string-keyed properties of a value, as \<^verbatim>\<open>Object.entries\<close>
  and object spread see them: the characters of a string and the elements of an array
  under their indices, the properties of an object, nothing otherwise.\<close>

fun ownEntries :: "jsval \<Rightarrow> props" where
  "ownEntries (JObj ps) = ps"
| "ownEntries (JArr xs) = indexed xs"
| "ownEntries (JStr s) = indexed (map (\<lambda>c. JStr [c]) s)"
| "ownEntries _ = []"

text \<open>\<^verbatim>\<open>Object.entries( v )\<close> throws on \<^verbatim>\<open>null\<close> and \<^verbatim>\<open>undefined\<close>.\<close>

definition objectEntries :: "jsval \<Rightarrow> fault + props" where
  "objectEntries v = (if isNullish v then Inl TypeError else Inr (ownEntries v))"

text \<open>\<^verbatim>\<open>{ ...a, ...b }\<close> on property lists: the properties of \<open>b\<close> are set, in order,
  on a copy of \<open>a\<close>. \<^verbatim>\<open>Object.fromEntries\<close> sets its entries on an empty object the
  same way.\<close>

definition spread :: "props \<Rightarrow> props \<Rightarrow> props" where
  "spread a b = fold (\<lambda>(k, x). AList.update k x) b a"

definition fromEntries :: "props \<Rightarrow> props" where
  "fromEntries es = spread [] es"

subsection \<open>Conversion to a string\<close>

text \<open>\<^verbatim>\<open>String( v )\<close>, which is also what \<^verbatim>\<open>'...' + v\<close> appends and the property key
  that \<open>v\<close> names: an array joins its elements with commas (\<^verbatim>\<open>null\<close> and
  \<^verbatim>\<open>undefined\<close> elements as the empty string), an object is
  \<^verbatim>\<open>[object Object]\<close>, a function is its source text.\<close>

fun toStringJs :: "jsval \<Rightarrow> string" and joinJs :: "jsval list \<Rightarrow> string" where
  "toStringJs JUndefined = ''undefined''"
| "toStringJs JNull = ''null''"
| "toStringJs (JBool b) = (if b then ''true'' else ''false'')"
| "toStringJs (JNum n) = (if n < 0 then ''-'' @ decimal (nat (- n)) else decimal (nat n))"
| "toStringJs (JStr s) = s"
| "toStringJs (JFunc f) = f"
| "toStringJs (JArr xs) = joinJs xs"
| "toStringJs (JObj ps) = ''[object Object]''"
| "joinJs [] = []"
| "joinJs [x] = (if isNullish x then [] else toStringJs x)"
| "joinJs (x # y # ys) =
     (if isNullish x then [] else toStringJs x) @ '','' @ joinJs (y # ys)"

section \<open>The collaborators of the block type processor\<close>

text \<open>A normalized icon, as \<^verbatim>\<open>interface BlockIconNormalized\<close> of
  \<^verbatim>\<open>types/block-icon.ts\<close> declares it: a renderer \<^verbatim>\<open>src\<close> (a Dashicon slug, an
  element or a component) and three optional colours.\<close>

record BlockIconNormalized =
  src :: jsval
  background :: "string option"
  foreground :: "string option"
  shadowColor :: "string option"

text \<open>The object that a normalized icon is, once stored in \<^verbatim>\<open>settings.icon\<close>.\<close>

definition optionalProp :: "string \<Rightarrow> string option \<Rightarrow> props" where
  "optionalProp k c = (case c of None \<Rightarrow> [] | Some x \<Rightarrow> [(k, JStr x)])"

definition iconObject :: "BlockIconNormalized \<Rightarrow> jsval" where
  "iconObject i =
     JObj ((''src'', src i) # optionalProp ''background'' (background i)
           @ optionalProp ''foreground'' (foreground i)
           @ optionalProp ''shadowColor'' (shadowColor i))"

text \<open>What the module imports and calls but does not define, and the functions that the
  data may hold. They are parameters of everything below.
  \<^item> \<open>applyFilters\<close>: the filter chain of \<^verbatim>\<open>@wordpress/hooks\<close>,
    \<^verbatim>\<open>applyFilters( hookName, value, name, context )\<close>, taken as a function that returns.
    Its last argument is the submitted block type as the chain finds it; it returns the
    filtered value and the submitted block type as the chain leaves it.
  \<^item> \<open>plainConstructor\<close>: what the package \<^verbatim>\<open>is-plain-object\<close> decides of an object
    from the value of its own \<^verbatim>\<open>constructor\<close> property, taken as a function that
    returns.
  \<^item> \<open>callMap\<close>: what calling the \<^verbatim>\<open>map\<close> function of a \<^verbatim>\<open>deprecated\<close> value
    that is not an array does, given the value, the callback and the submitted block type:
    the value it returns or the fault it throws, and the submitted block type afterwards.
  \<^item> the icon helpers and the allowlist of deprecation keys of \<^verbatim>\<open>../api\<close>.\<close>

record collaborators =
  applyFilters :: "string \<Rightarrow> jsval \<Rightarrow> jsval \<Rightarrow> jsval \<Rightarrow> props \<Rightarrow> jsval \<times> props"
  plainConstructor :: "jsval \<Rightarrow> bool"
  callMap ::
    "jsval \<Rightarrow> (jsval \<Rightarrow> props \<Rightarrow> (fault + jsval) \<times> props) \<Rightarrow> props \<Rightarrow> (fault + jsval) \<times> props"
  isValidIcon :: "jsval \<Rightarrow> bool"
  normalizeIconObject :: "jsval \<Rightarrow> BlockIconNormalized"
  DEPRECATED_ENTRY_KEYS :: "string list"

text \<open>Modelled from the spec: \<^verbatim>\<open>isPlainObject\<close> of the package
  \<^verbatim>\<open>is-plain-object\<close>. A plain structured record is not an array, a function or a
  primitive. The package reads \<^verbatim>\<open>o.constructor\<close>: an object that has no
  \<^verbatim>\<open>constructor\<close> of its own inherits that of \<^verbatim>\<open>Object\<close> and is plain; of an
  object with its own, the package decides from the value.\<close>

definition isPlainObject :: "collaborators \<Rightarrow> jsval \<Rightarrow> bool" where
  "isPlainObject E v =
     (case v of
        JObj ps \<Rightarrow>
          (case map_of ps ''constructor'' of
             None \<Rightarrow> True
           | Some ctor \<Rightarrow> plainConstructor E ctor)
      | _ \<Rightarrow> False)"

text \<open>Modelled from the spec: a block category, \<^verbatim>\<open>{slug, title, icon?}\<close>, of which the
  module reads the slug (the type \<^verbatim>\<open>BlockCategory\<close> is declared outside the sources).\<close>

record BlockCategory =
  slug :: string
  title :: string

text \<open>What the thunks read from the store through \<^verbatim>\<open>select\<close>: the category list and
  the log of unprocessed block types, an object keyed by block name, given as its entries
  in enumeration order.\<close>

record selectors =
  getCategories :: "BlockCategory list"
  experimentalGetUnprocessedBlockTypes :: "(string \<times> props) list"

text \<open>Modelled from the spec: \<^verbatim>\<open>omit( object, keys )\<close> of \<^verbatim>\<open>../api/utils\<close>, the object
  with a fixed key set excluded.\<close>

definition omit :: "props \<Rightarrow> string list \<Rightarrow> props" where
  "omit object keys = filter (\<lambda>(key, _). key \<notin> set keys) object"

text \<open>What reaches the console (\<^verbatim>\<open>window.console.error\<close>, \<^verbatim>\<open>window.console.warn\<close>)
  and the deprecation notice of \<^verbatim>\<open>@wordpress/deprecated\<close> with its \<^verbatim>\<open>since\<close>.\<close>

datatype diagnostic =
    ConsoleError string
  | ConsoleWarn string
  | DeprecatedNotice string string

fun isError :: "diagnostic \<Rightarrow> bool" where
  "isError (ConsoleError _) = True"
| "isError _ = False"

fun isWarning :: "diagnostic \<Rightarrow> bool" where
  "isWarning (ConsoleWarn _) = True"
| "isWarning _ = False"

definition dq :: string where
  "dq = [CHR 0x22]"

definition hookName :: string where
  "hookName = ''blocks.registerBlockType''"

section \<open>processBlockType\<close>

definition LEGACY_CATEGORY_MAPPING :: "(string \<times> string) list" where
  "LEGACY_CATEGORY_MAPPING =
     [(''common'', ''text''), (''formatting'', ''text''), (''layout'', ''design'')]"

text \<open>Lines 69 to 74: the filter chain runs on a shallow copy of the submitted block
  type. The copy shares the values of its properties with the submitted block type, so
  the chain can change the submitted block type in place: \<open>liveBlockType\<close> is the
  submitted block type as the live pass leaves it.\<close>

definition filteredSettings :: "collaborators \<Rightarrow> props \<Rightarrow> jsval" where
  "filteredSettings E blockType =
     fst (applyFilters E hookName (JObj (spread [] blockType))
            (getProp (JObj blockType) ''name'') JNull blockType)"

definition liveBlockType :: "collaborators \<Rightarrow> props \<Rightarrow> props" where
  "liveBlockType E blockType =
     snd (applyFilters E hookName (JObj (spread [] blockType))
            (getProp (JObj blockType) ''name'') JNull blockType)"

text \<open>Lines 76 to 80: the notice for a description that is not a string.\<close>

definition descriptionNotice :: "jsval \<Rightarrow> fault + diagnostic list" where
  "descriptionNotice settings =
     (case readProp settings ''description'' of
        Inl f \<Rightarrow> Inl f
      | Inr description \<Rightarrow>
          Inr (if truthy description \<and> typeof description \<noteq> ''string''
               then [DeprecatedNotice ''Declaring non-string block descriptions'' ''6.2'']
               else []))"

text \<open>Lines 84 to 102, the callback of \<^verbatim>\<open>map\<close>. \<open>current\<close> is the submitted block
  type as it is when the deprecation is processed. \<open>deprecationInput\<close> is the object
  handed to the filter chain for one deprecation, \<open>deprecationFiltered\<close> what the chain
  returns for it; \<open>deprecationEntry\<close> is the entry that is kept of that, with the
  submitted block type as the chain leaves it.\<close>

definition deprecationInput :: "collaborators \<Rightarrow> props \<Rightarrow> jsval \<Rightarrow> jsval" where
  "deprecationInput E current deprecation =
     JObj (spread (omit current (DEPRECATED_ENTRY_KEYS E)) (ownEntries deprecation))"

definition deprecationFiltered :: "collaborators \<Rightarrow> jsval \<Rightarrow> jsval \<Rightarrow> props \<Rightarrow> jsval" where
  "deprecationFiltered E name deprecation current =
     fst (applyFilters E hookName (deprecationInput E current deprecation) name deprecation current)"

definition deprecationEntry ::
  "collaborators \<Rightarrow> jsval \<Rightarrow> jsval \<Rightarrow> props \<Rightarrow> (fault + jsval) \<times> props" where
  "deprecationEntry E name deprecation current =
     (case applyFilters E hookName (deprecationInput E current deprecation) name deprecation current of
        (filtered, left) \<Rightarrow>
          (case objectEntries filtered of
             Inl f \<Rightarrow> (Inl f, left)
           | Inr entries \<Rightarrow>
               (Inr (JObj (fromEntries
                   (filter (\<lambda>(key, _). key \<in> set (DEPRECATED_ENTRY_KEYS E)) entries))),
                left)))"

text \<open>\<^verbatim>\<open>array.map( f )\<close> where \<open>f\<close> may throw and may change the submitted block
  type: the first fault ends the loop.\<close>

fun mapFault ::
  "('a \<Rightarrow> props \<Rightarrow> (fault + 'b) \<times> props) \<Rightarrow> 'a list \<Rightarrow> props \<Rightarrow> (fault + 'b list) \<times> props" where
  "mapFault f [] current = (Inr [], current)"
| "mapFault f (x # xs) current =
     (case f x current of
        (Inl e, left) \<Rightarrow> (Inl e, left)
      | (Inr y, left) \<Rightarrow>
          (case mapFault f xs left of
             (Inl e, final) \<Rightarrow> (Inl e, final)
           | (Inr ys, final) \<Rightarrow> (Inr (y # ys), final)))"

text \<open>\<^verbatim>\<open>settings.deprecated.map( callback )\<close>, line 83: the loop over an array; the
  call of the \<^verbatim>\<open>map\<close> function that another value carries; a \<^verbatim>\<open>TypeError\<close> where
  there is no such function.\<close>

definition mapDeprecated ::
  "collaborators \<Rightarrow> jsval \<Rightarrow> jsval \<Rightarrow> props \<Rightarrow> (fault + jsval) \<times> props" where
  "mapDeprecated E name deprecated current =
     (case deprecated of
        JArr ds \<Rightarrow>
          (case mapFault (deprecationEntry E name) ds current of
             (Inl f, left) \<Rightarrow> (Inl f, left)
           | (Inr out, left) \<Rightarrow> (Inr (JArr out), left))
      | _ \<Rightarrow>
          if isFunction (getProp deprecated ''map'')
          then callMap E deprecated (deprecationEntry E name) current
          else (Inl TypeError, current))"

text \<open>Lines 82 to 104.\<close>

definition processDeprecated ::
  "collaborators \<Rightarrow> jsval \<Rightarrow> jsval \<Rightarrow> props \<Rightarrow> (fault + jsval) \<times> props" where
  "processDeprecated E name settings current =
     (if truthy (getProp settings ''deprecated'') then
        (case mapDeprecated E name (getProp settings ''deprecated'') current of
           (Inl f, left) \<Rightarrow> (Inl f, left)
         | (Inr mapped, left) \<Rightarrow> (Inr (setProp settings ''deprecated'' mapped), left))
      else (Inr settings, current))"

text \<open>The submitted block type as it is when the deprecation of index \<open>i\<close> of an array
  is processed: as the passes for the deprecations before it have left it.\<close>

fun blockTypeAt :: "collaborators \<Rightarrow> jsval \<Rightarrow> jsval list \<Rightarrow> props \<Rightarrow> nat \<Rightarrow> props" where
  "blockTypeAt E name ds current 0 = current"
| "blockTypeAt E name [] current (Suc i) = current"
| "blockTypeAt E name (d # ds) current (Suc i) =
     blockTypeAt E name ds (snd (deprecationEntry E name d current)) i"

text \<open>Lines 120 to 123: \<^verbatim>\<open>hasOwnProperty\<close> and the lookup take the category as a
  property key.\<close>

definition canonicalizeCategory :: "jsval \<Rightarrow> jsval" where
  "canonicalizeCategory settings =
     (case map_of LEGACY_CATEGORY_MAPPING (toStringJs (getProp settings ''category'')) of
        Some category \<Rightarrow> setProp settings ''category'' (JStr category)
      | None \<Rightarrow> settings)"

text \<open>Lines 125 to 139.\<close>

definition invalidCategoryWarning :: "jsval \<Rightarrow> jsval \<Rightarrow> diagnostic" where
  "invalidCategoryWarning name category =
     ConsoleWarn (''The block '' @ dq @ toStringJs name @ dq
        @ '' is registered with an invalid category '' @ dq @ toStringJs category @ dq @ ''.'')"

definition checkCategory :: "BlockCategory list \<Rightarrow> jsval \<Rightarrow> jsval \<Rightarrow> diagnostic list \<times> jsval" where
  "checkCategory categories name settings =
     (if hasProp ''category'' settings
         \<and> \<not> list_ex (\<lambda>c. JStr (slug c) = getProp settings ''category'') categories
      then ([invalidCategoryWarning name (getProp settings ''category'')],
            deleteProp settings ''category'')
      else ([], settings))"

definition saveError :: diagnostic where
  "saveError = ConsoleError (''The '' @ dq @ ''save'' @ dq @ '' property must be a valid function.'')"

definition editError :: diagnostic where
  "editError = ConsoleError (''The '' @ dq @ ''edit'' @ dq @ '' property must be a valid function.'')"

definition objectError :: diagnostic where
  "objectError = ConsoleError ''Block settings must be a valid object.''"

definition titleError :: "jsval \<Rightarrow> diagnostic" where
  "titleError name = ConsoleError (''The block '' @ dq @ toStringJs name @ dq @ '' must have a title.'')"

definition titleTypeError :: diagnostic where
  "titleTypeError = ConsoleError ''Block titles must be strings.''"

definition iconError :: diagnostic where
  "iconError = ConsoleError (''The icon passed is invalid. ''
     @ ''The icon should be a string, an element, a function, or an object following the specifications documented in https://developer.wordpress.org/block-editor/developers/block-api/block-registration/#icon-optional'')"

text \<open>Lines 106 to 159: the checks, with the category steps between the \<^verbatim>\<open>edit\<close>
  check and the \<^verbatim>\<open>title\<close> check. The result is the diagnostics emitted and the
  settings returned, \<open>None\<close> for \<^verbatim>\<open>undefined\<close>.\<close>

definition validateSettings ::
  "collaborators \<Rightarrow> selectors \<Rightarrow> jsval \<Rightarrow> jsval \<Rightarrow> diagnostic list \<times> jsval option" where
  "validateSettings E select name settings =
     (if \<not> isPlainObject E settings then ([objectError], None)
      else if \<not> isFunction (getProp settings ''save'') then ([saveError], None)
      else if hasProp ''edit'' settings \<and> \<not> isFunction (getProp settings ''edit'')
        then ([editError], None)
      else
        (case checkCategory (getCategories select) name (canonicalizeCategory settings) of
           (warnings, settings2) \<Rightarrow>
             if \<not> hasProp ''title'' settings2 \<or> getProp settings2 ''title'' = JStr []
               then (warnings @ [titleError name], None)
             else if typeof (getProp settings2 ''title'') \<noteq> ''string''
               then (warnings @ [titleTypeError], None)
             else
               (let settings3 =
                      setProp settings2 ''icon''
                        (iconObject (normalizeIconObject E (getProp settings2 ''icon'')))
                in if \<not> isValidIcon E (getProp (getProp settings3 ''icon'') ''src'')
                   then (warnings @ [iconError], None)
                   else (warnings, Some settings3))))"

text \<open>Lines 66 to 104: the filter chain, the description notice and the deprecations.
  The diagnostics emitted, and the settings handed to the checks or the fault that ended
  the call.\<close>

definition filterStage :: "collaborators \<Rightarrow> props \<Rightarrow> diagnostic list \<times> (fault + jsval)" where
  "filterStage E blockType =
     (let name = getProp (JObj blockType) ''name'';
          settings = filteredSettings E blockType
      in case descriptionNotice settings of
           Inl f \<Rightarrow> ([], Inl f)
         | Inr notices \<Rightarrow>
             (notices, fst (processDeprecated E name settings (liveBlockType E blockType))))"

text \<open>The whole of \<^verbatim>\<open>processBlockType( blockType, { select } )\<close>: the diagnostics
  emitted, and a fault, \<^verbatim>\<open>undefined\<close> or the processed block type.\<close>

definition processBlockType ::
  "collaborators \<Rightarrow> selectors \<Rightarrow> props \<Rightarrow> diagnostic list \<times> (fault + jsval option)" where
  "processBlockType E select blockType =
     (case filterStage E blockType of
        (notices, Inl f) \<Rightarrow> (notices, Inl f)
      | (notices, Inr settings) \<Rightarrow>
          (case validateSettings E select (getProp (JObj blockType) ''name'') settings of
             (diagnostics, result) \<Rightarrow> (notices @ diagnostics, Inr result)))"

text \<open>The two category steps together, as the checks run them: the warnings and the
  settings that reach the title check.\<close>

definition normalizedCategory :: "selectors \<Rightarrow> jsval \<Rightarrow> jsval \<Rightarrow> diagnostic list \<times> jsval" where
  "normalizedCategory select name settings =
     checkCategory (getCategories select) name (canonicalizeCategory settings)"

section \<open>The thunks\<close>

text \<open>The actions of the module that the two thunks dispatch, and \<^verbatim>\<open>REMOVE_BLOCK_TYPES\<close>.\<close>

datatype action =
    ADD_UNPROCESSED_BLOCK_TYPE props
  | ADD_BLOCK_TYPES "jsval list"
  | REMOVE_BLOCK_TYPES "jsval list"

text \<open>\<^verbatim>\<open>addBlockTypes( blockTypes )\<close> wraps a single block type in an array.\<close>

fun addBlockTypes :: "jsval \<Rightarrow> action" where
  "addBlockTypes (JArr blockTypes) = ADD_BLOCK_TYPES blockTypes"
| "addBlockTypes blockType = ADD_BLOCK_TYPES [blockType]"

text \<open>\<^verbatim>\<open>removeBlockTypes( names )\<close> does the same with names.\<close>

fun removeBlockTypes :: "jsval \<Rightarrow> action" where
  "removeBlockTypes (JArr names) = REMOVE_BLOCK_TYPES names"
| "removeBlockTypes name = REMOVE_BLOCK_TYPES [name]"

text \<open>What running a thunk does, in the order in which it happens: an action is
  dispatched or a diagnostic is emitted; and the fault that ended the thunk, if one did.\<close>

datatype event = Dispatched action | Logged diagnostic

record outcome =
  events :: "event list"
  thrown :: "fault option"

fun dispatchedActions :: "event list \<Rightarrow> action list" where
  "dispatchedActions [] = []"
| "dispatchedActions (Dispatched a # es) = a # dispatchedActions es"
| "dispatchedActions (Logged d # es) = dispatchedActions es"

definition dispatched :: "outcome \<Rightarrow> action list" where
  "dispatched out = dispatchedActions (events out)"

text \<open>Lines 191 to 204.\<close>

definition experimentalRegisterBlockType :: "collaborators \<Rightarrow> selectors \<Rightarrow> props \<Rightarrow> outcome" where
  "experimentalRegisterBlockType E select blockType =
     (let first = Dispatched (ADD_UNPROCESSED_BLOCK_TYPE blockType) in
      case processBlockType E select blockType of
        (diagnostics, Inl f) \<Rightarrow>
          \<lparr>events = first # map Logged diagnostics, thrown = Some f\<rparr>
      | (diagnostics, Inr None) \<Rightarrow>
          \<lparr>events = first # map Logged diagnostics, thrown = None\<rparr>
      | (diagnostics, Inr (Some processedBlockType)) \<Rightarrow>
          \<lparr>events = first # map Logged diagnostics
                     @ [Dispatched (addBlockTypes processedBlockType)],
           thrown = None\<rparr>)"



text \<open>Modelled from the spec: how the store's reducer (outside the sources) changes the
  map of processed block types, keyed by block name: \<^verbatim>\<open>ADD_BLOCK_TYPES\<close> upserts each
  entry of the batch in order, \<^verbatim>\<open>REMOVE_BLOCK_TYPES\<close> deletes the given names, and no
  other action touches the map.\<close>

fun blockTypesReducer :: "(jsval \<times> jsval) list \<Rightarrow> action \<Rightarrow> (jsval \<times> jsval) list" where
  "blockTypesReducer state (ADD_BLOCK_TYPES blockTypes) =
     fold (\<lambda>blockType. AList.update (getProp blockType ''name'') blockType) blockTypes state"
| "blockTypesReducer state (REMOVE_BLOCK_TYPES names) = fold AList.delete names state"
| "blockTypesReducer state (ADD_UNPROCESSED_BLOCK_TYPE blockType) = state"

section \<open>The checks as the specification words them\<close>

text \<open>The validator of the specification: five checks in a fixed order, the first
  failure deciding the rejection. The title check has two reasons.\<close>

datatype rejection =
    InvalidSettingsObject
  | SaveNotFunction
  | EditNotFunction
  | MissingTitle
  | TitleNotString
  | InvalidIcon

definition validate_spec :: "collaborators \<Rightarrow> jsval \<Rightarrow> rejection option" where
  "validate_spec E candidate =
     (if \<not> isPlainObject E candidate then Some InvalidSettingsObject
      else if \<not> isFunction (getProp candidate ''save'') then Some SaveNotFunction
      else if hasProp ''edit'' candidate \<and> \<not> isFunction (getProp candidate ''edit'')
        then Some EditNotFunction
      else if \<not> hasProp ''title'' candidate \<or> getProp candidate ''title'' = JStr []
        then Some MissingTitle
      else if typeof (getProp candidate ''title'') \<noteq> ''string'' then Some TitleNotString
      else if \<not> isValidIcon E (src (normalizeIconObject E (getProp candidate ''icon'')))
        then Some InvalidIcon
      else None)"

fun rejectionError :: "jsval \<Rightarrow> rejection \<Rightarrow> diagnostic" where
  "rejectionError name InvalidSettingsObject = objectError"
| "rejectionError name SaveNotFunction = saveError"
| "rejectionError name EditNotFunction = editError"
| "rejectionError name MissingTitle = titleError name"
| "rejectionError name TitleNotString = titleTypeError"
| "rejectionError name InvalidIcon = iconError"




section \<open>A registry to run the module on\<close>

text \<open>Collaborators for evaluating the module on concrete block types: no filter is
  registered, an object with a \<^verbatim>\<open>constructor\<close> of its own is plain only if that is
  \<^verbatim>\<open>undefined\<close>, a \<^verbatim>\<open>map\<close> function held in the data returns an empty array, an
  icon is valid when it is a non-empty string or a function, a missing icon is normalized
  to the default one, and the allowlist has the keys that the specification names. The
  store has the categories \<^verbatim>\<open>text\<close> and \<^verbatim>\<open>design\<close>, or none. \<open>withFilter\<close>
  registers a filter that changes nothing in place.\<close>

definition plainIcons :: "jsval \<Rightarrow> bool" where
  "plainIcons v = ((typeof v = ''string'' \<and> v \<noteq> JStr []) \<or> isFunction v)"

definition defaultIcon :: "jsval \<Rightarrow> BlockIconNormalized" where
  "defaultIcon icon =
     \<lparr>src = (if truthy icon then icon else JStr ''block-default''),
      background = None, foreground = None, shadowColor = None\<rparr>"

definition entryKeys :: "string list" where
  "entryKeys = [''attributes'', ''save'', ''migrate'', ''isEligible'', ''supports'']"

definition noFilters :: collaborators where
  "noFilters =
     \<lparr>applyFilters = (\<lambda>hook v name context current. (v, current)),
      plainConstructor = (\<lambda>ctor. ctor = JUndefined),
      callMap = (\<lambda>receiver callback current. (Inr (JArr []), current)),
      isValidIcon = plainIcons,
      normalizeIconObject = defaultIcon, DEPRECATED_ENTRY_KEYS = entryKeys\<rparr>"

definition withFilter :: "(jsval \<Rightarrow> jsval \<Rightarrow> jsval \<Rightarrow> jsval) \<Rightarrow> collaborators" where
  "withFilter f =
     noFilters\<lparr>applyFilters := (\<lambda>hook v name context current. (f v name context, current))\<rparr>"

definition twoCategories :: selectors where
  "twoCategories =
     \<lparr>getCategories = [\<lparr>slug = ''text'', title = ''Text''\<rparr>, \<lparr>slug = ''design'', title = ''Design''\<rparr>],
      experimentalGetUnprocessedBlockTypes = []\<rparr>"

definition noCategories :: selectors where
  "noCategories = \<lparr>getCategories = [], experimentalGetUnprocessedBlockTypes = []\<rparr>"

text \<open>Block types to register, and filters to register them under.\<close>

definition saveFn :: jsval where
  "saveFn = JFunc ''() => null''"

definition numberTitled :: props where
  "numberTitled = [(''name'', JStr ''core/x''), (''title'', JNum 5), (''save'', saveFn)]"

definition validBlock :: props where
  "validBlock = [(''name'', JStr ''core/x''), (''title'', JStr ''X''), (''save'', saveFn)]"

definition titledNoSave :: props where
  "titledNoSave = [(''name'', JStr ''core/x''), (''title'', JStr ''X'')]"

definition bogusCategory :: props where
  "bogusCategory =
     [(''name'', JStr ''core/x''), (''title'', JStr ''X''), (''save'', saveFn),
      (''category'', JStr ''bogus'')]"

definition commonCategory :: props where
  "commonCategory =
     [(''name'', JStr ''core/x''), (''title'', JStr ''X''), (''save'', saveFn),
      (''category'', JStr ''common'')]"

definition layoutInArray :: props where
  "layoutInArray =
     [(''name'', JStr ''core/x''), (''title'', JStr ''X''), (''save'', saveFn),
      (''category'', JArr [JStr ''layout''])]"

definition bogusNoSave :: props where
  "bogusNoSave =
     [(''name'', JStr ''core/x''), (''title'', JStr ''X''), (''category'', JStr ''bogus'')]"

definition supportsBlock :: props where
  "supportsBlock =
     [(''name'', JStr ''core/x''), (''title'', JStr ''X''), (''save'', saveFn),
      (''supports'', JObj [(''x'', JBool True)]),
      (''deprecated'',
         JArr [JObj [(''attributes'', JObj []), (''extra'', JNum 1)], JObj [(''save'', saveFn)]])]"

definition taggingFilter :: collaborators where
  "taggingFilter = withFilter (\<lambda>v name context. setProp v ''injected'' (JBool True))"



definition retitlingFilter :: collaborators where
  "retitlingFilter =
     withFilter (\<lambda>v name context.
       if context = JNull
       then setProp (setProp v ''title'' (JStr ''Changed'')) ''extra'' (JNum 1)
       else v)"

definition oneDeprecation :: props where
  "oneDeprecation =
     [(''name'', JStr ''core/x''), (''title'', JStr ''X''), (''save'', saveFn),
      (''deprecated'', JArr [JObj [(''attributes'', JObj [])]])]"

definition arrayFilter :: collaborators where
  "arrayFilter = withFilter (\<lambda>v name context. JArr [])"

definition bogusBadEdit :: props where
  "bogusBadEdit =
     [(''name'', JStr ''core/x''), (''title'', JStr ''X''), (''save'', saveFn),
      (''edit'', JStr ''edit''), (''category'', JStr ''bogus'')]"

definition numberDeprecated :: props where
  "numberDeprecated =
     [(''name'', JStr ''core/x''), (''title'', JStr ''X''), (''save'', saveFn),
      (''deprecated'', JNum 5)]"


text \<open>A filter whose live pass pushes a keyword onto the \<^verbatim>\<open>keywords\<close> array of what
  it is given (\<^verbatim>\<open>settings.keywords.push( 'added' )\<close>). The array is the one that the
  submitted block type holds, so both see the change.\<close>

definition pushed :: "jsval \<Rightarrow> jsval" where
  "pushed v = (case v of JArr xs \<Rightarrow> JArr (xs @ [JStr ''added'']) | _ \<Rightarrow> v)"

definition pushingFilter :: collaborators where
  "pushingFilter =
     noFilters\<lparr>applyFilters := (\<lambda>hook v name context current.
       if context = JNull
       then (setProp v ''keywords'' (pushed (getProp v ''keywords'')),
             AList.update ''keywords'' (pushed (getProp v ''keywords'')) current)
       else (v, current))\<rparr>"

definition keywordsBlock :: props where
  "keywordsBlock =
     [(''name'', JStr ''core/x''), (''title'', JStr ''X''), (''save'', saveFn),
      (''keywords'', JArr [JStr ''a'']),
      (''deprecated'', JArr [JObj [(''attributes'', JObj [])]])]"

section \<open>Lemmas\<close>

subsection \<open>Properties of objects and of the category steps\<close>

lemma getProp_setProp_other: "k' \<noteq> k \<Longrightarrow> getProp (setProp s k x) k' = getProp s k'"
  by (cases s) (simp_all add: update_conv')

lemma isPlainObject_isObject: "isPlainObject E s \<Longrightarrow> isObject s"
  by (cases s) (simp_all add: isPlainObject_def)

lemma getProp_setProp_same: "isObject s \<Longrightarrow> getProp (setProp s k x) k = x"
  by (cases s) (simp_all add: update_conv')

lemma hasProp_setProp_other: "k' \<noteq> k \<Longrightarrow> hasProp k' (setProp s k x) = hasProp k' s"
  by (cases s) (auto simp add: dom_update)

lemma hasProp_setProp_same: "isObject s \<Longrightarrow> hasProp k (setProp s k x)"
  by (cases s) (simp_all add: dom_update)

lemma isObject_setProp: "isObject (setProp s k x) = isObject s"
  by (cases s) simp_all

lemma isPlainObject_setProp:
  "k \<noteq> ''constructor'' \<Longrightarrow> isPlainObject E (setProp s k x) = isPlainObject E s"
  by (cases s) (simp_all add: isPlainObject_def update_conv')

lemma getProp_deleteProp_other: "k' \<noteq> k \<Longrightarrow> getProp (deleteProp s k) k' = getProp s k'"
  by (cases s) simp_all

lemma hasProp_deleteProp_other: "k' \<noteq> k \<Longrightarrow> hasProp k' (deleteProp s k) = hasProp k' s"
  by (cases s) (auto simp add: delete_keys)

lemma hasProp_deleteProp_same: "\<not> hasProp k (deleteProp s k)"
  by (cases s) (simp_all add: delete_keys)

lemma isObject_deleteProp: "isObject (deleteProp s k) = isObject s"
  by (cases s) simp_all

lemma isPlainObject_deleteProp:
  "k \<noteq> ''constructor'' \<Longrightarrow> isPlainObject E (deleteProp s k) = isPlainObject E s"
  by (cases s) (simp_all add: isPlainObject_def)

lemma getProp_canonicalize_other:
  "k \<noteq> ''category'' \<Longrightarrow> getProp (canonicalizeCategory s) k = getProp s k"
  by (simp add: canonicalizeCategory_def getProp_setProp_other split: option.splits)

lemma hasProp_canonicalize_other:
  "k \<noteq> ''category'' \<Longrightarrow> hasProp k (canonicalizeCategory s) = hasProp k s"
  by (simp add: canonicalizeCategory_def hasProp_setProp_other split: option.splits)

lemma isObject_canonicalize: "isObject (canonicalizeCategory s) = isObject s"
  by (simp add: canonicalizeCategory_def isObject_setProp split: option.splits)

lemma getProp_checkCategory_other:
  "k \<noteq> ''category'' \<Longrightarrow> getProp (snd (checkCategory cats name s)) k = getProp s k"
  by (simp add: checkCategory_def getProp_deleteProp_other)

lemma hasProp_checkCategory_other:
  "k \<noteq> ''category'' \<Longrightarrow> hasProp k (snd (checkCategory cats name s)) = hasProp k s"
  by (simp add: checkCategory_def hasProp_deleteProp_other)

lemma isObject_checkCategory: "isObject (snd (checkCategory cats name s)) = isObject s"
  by (simp add: checkCategory_def isObject_deleteProp)

lemma checkCategory_no_error: "filter isError (fst (checkCategory cats name s)) = []"
  by (simp add: checkCategory_def invalidCategoryWarning_def)

lemma getProp_normalized_other:
  "k \<noteq> ''category'' \<Longrightarrow> getProp (snd (normalizedCategory sel name s)) k = getProp s k"
  by (simp add: normalizedCategory_def getProp_checkCategory_other getProp_canonicalize_other)

lemma hasProp_normalized_other:
  "k \<noteq> ''category'' \<Longrightarrow> hasProp k (snd (normalizedCategory sel name s)) = hasProp k s"
  by (simp add: normalizedCategory_def hasProp_checkCategory_other hasProp_canonicalize_other)

lemma isObject_normalized: "isObject (snd (normalizedCategory sel name s)) = isObject s"
  by (simp add: normalizedCategory_def isObject_checkCategory isObject_canonicalize)

lemma src_iconObject: "getProp (iconObject i) ''src'' = src i"
  by (simp add: iconObject_def)

lemma icon_src_read:
  "isObject s \<Longrightarrow> getProp (getProp (setProp s ''icon'' (iconObject i)) ''icon'') ''src'' = src i"
  by (simp add: getProp_setProp_same src_iconObject)

lemma isError_simps: "isError saveError" "isError editError" "isError objectError"
  "isError (titleError n)" "isError titleTypeError" "isError iconError"
  by (simp_all add: saveError_def editError_def objectError_def titleError_def titleTypeError_def iconError_def)

lemma validateSettings_unfold:
  "validateSettings E select name settings =
     (if \<not> isPlainObject E settings then ([objectError], None)
      else if \<not> isFunction (getProp settings ''save'') then ([saveError], None)
      else if hasProp ''edit'' settings \<and> \<not> isFunction (getProp settings ''edit'')
        then ([editError], None)
      else
        (let warnings = fst (normalizedCategory select name settings);
             settings2 = snd (normalizedCategory select name settings) in
             if \<not> hasProp ''title'' settings \<or> getProp settings ''title'' = JStr []
               then (warnings @ [titleError name], None)
             else if typeof (getProp settings ''title'') \<noteq> ''string''
               then (warnings @ [titleTypeError], None)
             else if \<not> isValidIcon E (src (normalizeIconObject E (getProp settings ''icon'')))
                   then (warnings @ [iconError], None)
                   else (warnings, Some (setProp settings2 ''icon''
                        (iconObject (normalizeIconObject E (getProp settings ''icon'')))))))"
  unfolding validateSettings_def Let_def
  apply (simp only: normalizedCategory_def [symmetric])
  apply (cases "normalizedCategory select name settings")
  apply (simp only: prod.case)
  using getProp_normalized_other [of "''title''" select name settings]
        getProp_normalized_other [of "''icon''" select name settings]
        hasProp_normalized_other [of "''title''" select name settings]
        isObject_normalized [of select name settings]
        isPlainObject_isObject [of E settings]
  apply (auto simp add: icon_src_read)
  done

lemma normalized_no_error: "filter isError (fst (normalizedCategory sel name s)) = []"
  by (simp add: normalizedCategory_def checkCategory_no_error)

lemma validate_core:
  "filter isError (fst (validateSettings E sel name s))
     = (case validate_spec E s of None \<Rightarrow> [] | Some rj \<Rightarrow> [rejectionError name rj])
   \<and> (snd (validateSettings E sel name s) = None \<longleftrightarrow> validate_spec E s \<noteq> None)"
  by (simp add: validateSettings_unfold validate_spec_def Let_def isError_simps normalized_no_error)

subsection \<open>The order of the checks\<close>

lemma descriptionNotice_no_error:
  "descriptionNotice s = Inr notices \<Longrightarrow> filter isError notices = [] \<and> filter isWarning notices = []"
  by (auto simp add: descriptionNotice_def split: sum.splits if_splits)

lemma filterStage_notices:
  "filterStage E bt = (notices, r) \<Longrightarrow> filter isError notices = [] \<and> filter isWarning notices = []"
  by (auto simp add: filterStage_def Let_def split: sum.splits dest: descriptionNotice_no_error)

lemma processBlockType_staged:
  "filterStage E bt = (notices, Inr s) \<Longrightarrow>
   processBlockType E sel bt =
     (notices @ fst (validateSettings E sel (getProp (JObj bt) ''name'') s),
      Inr (snd (validateSettings E sel (getProp (JObj bt) ''name'') s)))"
  by (simp add: processBlockType_def split: prod.splits)

subsection \<open>A block type without a save function\<close>

lemma processDeprecated_settings:
  "fst (processDeprecated E name s current) = Inr s' \<Longrightarrow>
     s' = s \<or> (\<exists>mapped. s' = setProp s ''deprecated'' mapped)"
  by (auto simp add: processDeprecated_def split: if_splits prod.splits sum.splits)

lemma processDeprecated_other:
  "fst (processDeprecated E name s current) = Inr s' \<Longrightarrow> k \<noteq> ''deprecated'' \<Longrightarrow>
     getProp s' k = getProp s k \<and> hasProp k s' = hasProp k s"
  by (auto dest!: processDeprecated_settings simp add: getProp_setProp_other hasProp_setProp_other)

lemma processDeprecated_plain:
  "fst (processDeprecated E name s current) = Inr s' \<Longrightarrow> isPlainObject E s' = isPlainObject E s"
  by (auto dest!: processDeprecated_settings simp add: isPlainObject_setProp)

lemma validate_spec_processDeprecated:
  "fst (processDeprecated E name fs current) = Inr s \<Longrightarrow> validate_spec E s = validate_spec E fs"
  by (simp add: validate_spec_def processDeprecated_other processDeprecated_plain)

lemma filterStage_settings:
  "filterStage E bt = (notices, Inr s) \<Longrightarrow>
     fst (processDeprecated E (getProp (JObj bt) ''name'') (filteredSettings E bt)
            (liveBlockType E bt)) = Inr s"
  by (auto simp add: filterStage_def Let_def split: sum.splits)

lemma filterStage_fault:
  "filterStage E bt = (notices, Inl f) \<Longrightarrow> processBlockType E sel bt = (notices, Inl f)"
  by (simp add: processBlockType_def)

lemma dispatchedActions_Logged: "dispatchedActions (map Logged ds) = []"
  by (induction ds) simp_all

lemma dispatchedActions_append:
  "dispatchedActions (xs @ ys) = dispatchedActions xs @ dispatchedActions ys"
  by (induction xs rule: dispatchedActions.induct) simp_all

lemma register_dispatched:
  "dispatched (experimentalRegisterBlockType E sel bt)
     = ADD_UNPROCESSED_BLOCK_TYPE bt
       # (case snd (processBlockType E sel bt) of
            Inr (Some p) \<Rightarrow> [addBlockTypes p]
          | _ \<Rightarrow> [])"
  by (cases "processBlockType E sel bt")
     (auto simp add: dispatched_def experimentalRegisterBlockType_def Let_def
        dispatchedActions_Logged dispatchedActions_append split: sum.splits option.splits)

subsection \<open>A category that is not known\<close>

lemma isWarning_simps: "\<not> isWarning saveError" "\<not> isWarning editError" "\<not> isWarning objectError"
  "\<not> isWarning (titleError n)" "\<not> isWarning titleTypeError" "\<not> isWarning iconError"
  "isWarning (invalidCategoryWarning n c)"
  by (simp_all add: saveError_def editError_def objectError_def titleError_def titleTypeError_def
      iconError_def invalidCategoryWarning_def)

lemma normalizedCategory_unknown:
  assumes "hasProp ''category'' (canonicalizeCategory s)"
    and "\<not> list_ex (\<lambda>c. JStr (slug c) = getProp (canonicalizeCategory s) ''category'') (getCategories sel)"
  shows "normalizedCategory sel name s
           = ([invalidCategoryWarning name (getProp (canonicalizeCategory s) ''category'')],
              deleteProp (canonicalizeCategory s) ''category'')"
  using assms by (simp add: normalizedCategory_def checkCategory_def)

subsection \<open>Legacy categories\<close>

lemma map_of_legacy:
  "map_of LEGACY_CATEGORY_MAPPING k
     = (if k = ''common'' \<or> k = ''formatting'' then Some ''text''
        else if k = ''layout'' then Some ''design'' else None)"
  by (simp add: LEGACY_CATEGORY_MAPPING_def)

lemma normalized_category_legacy:
  assumes "isObject s" and "map_of LEGACY_CATEGORY_MAPPING (toStringJs (getProp s ''category'')) = Some c"
  shows "snd (normalizedCategory sel name s)
           = (if c \<in> set (map slug (getCategories sel))
              then setProp s ''category'' (JStr c)
              else deleteProp (setProp s ''category'' (JStr c)) ''category'')"
  using assms
  by (auto simp add: normalizedCategory_def checkCategory_def canonicalizeCategory_def
      hasProp_setProp_same getProp_setProp_same list_ex_iff)

lemma normalized_category_other:
  assumes "map_of LEGACY_CATEGORY_MAPPING (toStringJs (getProp s ''category'')) = None"
  shows "snd (normalizedCategory sel name s)
           = (if hasProp ''category'' s
                 \<and> \<not> list_ex (\<lambda>c. JStr (slug c) = getProp s ''category'') (getCategories sel)
              then deleteProp s ''category'' else s)"
  using assms
  by (simp add: normalizedCategory_def checkCategory_def canonicalizeCategory_def)

lemma accepted_result:
  assumes "snd (processBlockType E sel bt) = Inr (Some r)"
  shows "\<exists>notices s. filterStage E bt = (notices, Inr s) \<and> isPlainObject E s
           \<and> r = setProp (snd (normalizedCategory sel (getProp (JObj bt) ''name'') s)) ''icon''
                    (iconObject (normalizeIconObject E (getProp s ''icon'')))"
proof (cases "filterStage E bt")
  case (Pair notices res)
  show ?thesis
  proof (cases res)
    case (Inl f)
    with Pair assms show ?thesis by (simp add: filterStage_fault)
  next
    case (Inr s)
    with Pair have st: "filterStage E bt = (notices, Inr s)" by simp
    from assms have "snd (validateSettings E sel (getProp (JObj bt) ''name'') s) = Some r"
      by (simp add: processBlockType_staged [OF st])
    then have "isPlainObject E s \<and> r = setProp (snd (normalizedCategory sel (getProp (JObj bt) ''name'') s)) ''icon''
                    (iconObject (normalizeIconObject E (getProp s ''icon'')))"
      by (auto simp add: validateSettings_unfold Let_def simp del: getProp.simps split: if_splits)
    with st show ?thesis by blast
  qed
qed

subsection \<open>Where the category steps run\<close>

lemma validate_spec_deleteProp:
  "validate_spec E (deleteProp s ''category'') = validate_spec E s"
  by (simp add: validate_spec_def isPlainObject_deleteProp getProp_deleteProp_other
      hasProp_deleteProp_other)

subsection \<open>Deprecations\<close>

lemma mapFault_length_pair:
  "mapFault f xs current = (Inr ys, final) \<Longrightarrow> length ys = length xs"
  by (induction xs arbitrary: ys current final) (auto split: prod.splits sum.splits)

lemma mapFault_length: "fst (mapFault f xs current) = Inr ys \<Longrightarrow> length ys = length xs"
  by (cases "mapFault f xs current") (auto dest: mapFault_length_pair)

lemma mapFault_nth_pair:
  "mapFault (deprecationEntry E name) ds current = (Inr out, final) \<Longrightarrow> i < length ds \<Longrightarrow>
   fst (deprecationEntry E name (ds ! i) (blockTypeAt E name ds current i)) = Inr (out ! i)"
proof (induction ds arbitrary: out i current final)
  case Nil
  then show ?case by simp
next
  case (Cons d ds)
  then show ?case
    by (cases i) (auto split: prod.splits sum.splits)
qed

lemma mapFault_nth:
  "fst (mapFault (deprecationEntry E name) ds current) = Inr out \<Longrightarrow> i < length ds \<Longrightarrow>
   fst (deprecationEntry E name (ds ! i) (blockTypeAt E name ds current i)) = Inr (out ! i)"
  by (cases "mapFault (deprecationEntry E name) ds current") (auto dest: mapFault_nth_pair)

lemma keys_spread: "fst ` set (spread a b) = fst ` set a \<union> fst ` set b"
  unfolding spread_def
proof (induction b arbitrary: a)
  case Nil
  then show ?case by simp
next
  case (Cons p b)
  then show ?case
    by (cases p) (auto simp add: dom_update)
qed

lemma keys_fromEntries: "fst ` set (fromEntries es) = fst ` set es"
  by (simp add: fromEntries_def keys_spread)

lemma deprecationEntry_object:
  assumes "fst (deprecationEntry E name d current) = Inr e"
  shows "e = JObj (fromEntries (filter (\<lambda>(key, _). key \<in> set (DEPRECATED_ENTRY_KEYS E))
                (ownEntries (fst (applyFilters E hookName (deprecationInput E current d)
                                    name d current)))))"
  using assms
  by (auto simp add: deprecationEntry_def objectEntries_def split: if_splits prod.splits)

lemma deprecationEntry_keys:
  assumes "fst (deprecationEntry E name d current) = Inr e"
  shows "\<exists>ps. e = JObj ps \<and> fst ` set ps
           = fst ` set (ownEntries (fst (applyFilters E hookName (deprecationInput E current d)
                                          name d current)))
             \<inter> set (DEPRECATED_ENTRY_KEYS E)"
  unfolding deprecationEntry_object [OF assms]
  by (auto simp add: keys_fromEntries)

lemma keys_omit: "fst ` set (omit object keys) = fst ` set object - set keys"
  by (auto simp add: omit_def)

lemma keys_deprecationInput:
  "hasProp k (deprecationInput E bt d)
     = (k \<in> fst ` set (ownEntries d)
        \<or> (k \<in> fst ` set bt \<and> k \<notin> set (DEPRECATED_ENTRY_KEYS E)))"
  by (auto simp add: deprecationInput_def keys_spread keys_omit)

lemma processDeprecated_array:
  assumes "getProp settings ''deprecated'' = JArr ds"
    and "fst (processDeprecated E name settings current) = Inr s'"
  shows "\<exists>out. fst (mapFault (deprecationEntry E name) ds current) = Inr out
           \<and> s' = setProp settings ''deprecated'' (JArr out)
           \<and> getProp s' ''deprecated'' = JArr out"
proof -
  from assms(1) have obj: "isObject settings"
    by (cases settings) simp_all
  from assms obtain out where m: "fst (mapFault (deprecationEntry E name) ds current) = Inr out"
    and s: "s' = setProp settings ''deprecated'' (JArr out)"
    by (auto simp add: processDeprecated_def mapDeprecated_def split: prod.splits sum.splits)
  from obj s have "getProp s' ''deprecated'' = JArr out"
    by (simp add: getProp_setProp_same)
  with m s show ?thesis by blast
qed

lemma accepted_deprecated:
  assumes st: "filterStage E bt = (notices, Inr s)"
    and acc: "snd (processBlockType E sel bt) = Inr (Some r)"
  shows "getProp r ''deprecated'' = getProp s ''deprecated''"
proof -
  from accepted_result [OF acc] st
  have "r = setProp (snd (normalizedCategory sel (getProp (JObj bt) ''name'') s)) ''icon''
                    (iconObject (normalizeIconObject E (getProp s ''icon'')))"
    by simp
  then show ?thesis
    by (simp add: getProp_setProp_other getProp_normalized_other del: getProp.simps)
qed

subsection \<open>The registration thunk\<close>

lemma register_events:
  "events (experimentalRegisterBlockType E sel bt)
     = Dispatched (ADD_UNPROCESSED_BLOCK_TYPE bt)
       # map Logged (fst (processBlockType E sel bt))
       @ (case snd (processBlockType E sel bt) of
            Inr (Some p) \<Rightarrow> [Dispatched (addBlockTypes p)]
          | _ \<Rightarrow> [])"
  by (cases "processBlockType E sel bt")
     (auto simp add: experimentalRegisterBlockType_def Let_def split: sum.splits option.splits)

subsection \<open>Reapplying the filters\<close>




subsection \<open>The merge base of a deprecation\<close>

lemma map_of_omit:
  "map_of (omit object keys) k = (if k \<in> set keys then None else map_of object k)"
  by (induction object) (auto simp add: omit_def)

lemma map_of_spread_base:
  "k \<notin> fst ` set b \<Longrightarrow> map_of (spread a b) k = map_of a k"
  unfolding spread_def
proof (induction b arbitrary: a)
  case Nil
  then show ?case by simp
next
  case (Cons p b)
  then show ?case
    by (cases p) (auto simp add: update_conv')
qed

lemma deprecationInput_base:
  "k \<notin> fst ` set (ownEntries d) \<Longrightarrow>
   getProp (deprecationInput E bt d) k
     = (if k \<in> set (DEPRECATED_ENTRY_KEYS E) then JUndefined else getProp (JObj bt) k)"
  by (simp add: deprecationInput_def map_of_spread_base map_of_omit)

lemma processDeprecated_same_array:
  assumes "getProp s1 ''deprecated'' = JArr ds" and "getProp s2 ''deprecated'' = JArr ds"
    and "fst (processDeprecated E name s1 current) = Inr s1'"
  shows "\<exists>s2'. fst (processDeprecated E name s2 current) = Inr s2'
           \<and> getProp s2' ''deprecated'' = getProp s1' ''deprecated''"
proof -
  from processDeprecated_array [OF assms(1) assms(3)]
  obtain out where m: "fst (mapFault (deprecationEntry E name) ds current) = Inr out"
    and g: "getProp s1' ''deprecated'' = JArr out"
    by blast
  from assms(2) have obj: "isObject s2"
    by (cases s2) simp_all
  have "fst (processDeprecated E name s2 current) = Inr (setProp s2 ''deprecated'' (JArr out))"
    using assms(2) m
    by (auto simp add: processDeprecated_def mapDeprecated_def split: prod.splits sum.splits)
  moreover have "getProp (setProp s2 ''deprecated'' (JArr out)) ''deprecated'' = JArr out"
    using obj by (simp add: getProp_setProp_same)
  ultimately show ?thesis
    using g by simp
qed

lemma deprecationEntry_left:
  "snd (deprecationEntry E name d current)
     = snd (applyFilters E hookName (deprecationInput E current d) name d current)"
  by (auto simp add: deprecationEntry_def split: prod.splits sum.splits)

lemma blockTypeAt_unchanged:
  assumes "\<forall>hook v name context current. snd (applyFilters E hook v name context current) = current"
  shows "blockTypeAt E name ds current i = current"
  using assms
  by (induction E name ds current i rule: blockTypeAt.induct) (simp_all add: deprecationEntry_left)

section \<open>The properties of the registry\<close>

subsection \<open>The order of the checks\<close>

text \<open>
  C1, as the specification states it, fails: settings that pass all five checks are not
  always accepted. With a \<^verbatim>\<open>deprecated\<close> that is the number 5, line 83 throws a
  \<^verbatim>\<open>TypeError\<close> before the checks are reached: the block type is neither accepted
  nor rejected with an error diagnostic.
\<close>

theorem validation_order_counterexample:
  "validate_spec noFilters (filteredSettings noFilters numberDeprecated) = None
   \<and> processBlockType noFilters twoCategories numberDeprecated = ([], Inl TypeError)"
  by code_simp

text \<open>
  C1, amended. Whenever the settings returned by the filter chain reach the checks (the
  description notice and the deprecations end without a fault), \<^verbatim>\<open>processBlockType\<close>
  decides as the five ordered checks of the specification do on those settings: the only
  error diagnostic it emits is the error of the first failing check (plain object,
  \<^verbatim>\<open>save\<close>, \<^verbatim>\<open>edit\<close>, title present and not empty, title a string, icon valid), it
  returns \<^verbatim>\<open>undefined\<close> exactly when a check fails, and it returns a processed block
  type when all pass.
\<close>

theorem validation_order:
  assumes "filterStage E bt = (notices, Inr s)"
  shows "filter isError (fst (processBlockType E sel bt))
           = (case validate_spec E (filteredSettings E bt) of
                None \<Rightarrow> []
              | Some rj \<Rightarrow> [rejectionError (getProp (JObj bt) ''name'') rj])
       \<and> (snd (processBlockType E sel bt) = Inr None
            \<longleftrightarrow> validate_spec E (filteredSettings E bt) \<noteq> None)
       \<and> (validate_spec E (filteredSettings E bt) = None
            \<longrightarrow> (\<exists>r. snd (processBlockType E sel bt) = Inr (Some r)))"
proof -
  let ?v = "validateSettings E sel (getProp (JObj bt) ''name'') s"
  have p: "processBlockType E sel bt = (notices @ fst ?v, Inr (snd ?v))"
    using assms by (rule processBlockType_staged)
  have n: "filter isError notices = []"
    using assms filterStage_notices by blast
  have e: "validate_spec E s = validate_spec E (filteredSettings E bt)"
    using filterStage_settings [OF assms] by (rule validate_spec_processDeprecated)
  have c: "filter isError (fst ?v)
             = (case validate_spec E s of
                  None \<Rightarrow> []
                | Some rj \<Rightarrow> [rejectionError (getProp (JObj bt) ''name'') rj])"
    and d: "snd ?v = None \<longleftrightarrow> validate_spec E s \<noteq> None"
    using validate_core [of E sel "getProp (JObj bt) ''name''" s] by simp_all
  show ?thesis
    using c d unfolding e by (auto simp add: p n)
qed

theorem validation_order_witness:
  "filterStage noFilters numberTitled = ([], Inr (JObj numberTitled))
   \<and> validate_spec noFilters (filteredSettings noFilters numberTitled) = Some TitleNotString
   \<and> filter isError (fst (processBlockType noFilters twoCategories numberTitled)) = [titleTypeError]
   \<and> snd (processBlockType noFilters twoCategories numberTitled) = Inr None"
proof -
  have h: "filterStage noFilters numberTitled = ([], Inr (JObj numberTitled))"
    by code_simp
  have v: "validate_spec noFilters (filteredSettings noFilters numberTitled) = Some TitleNotString"
    by code_simp
  from validation_order [OF h, of twoCategories] v show ?thesis
    using h by simp
qed

subsection \<open>Settings that are not an object\<close>

text \<open>
  C3. When the filter chain returns \<^verbatim>\<open>null\<close> for a block type,
  \<^verbatim>\<open>processBlockType\<close> does not return: reading \<^verbatim>\<open>settings.description\<close> (line 76)
  throws a \<^verbatim>\<open>TypeError\<close> before the plain-object check of line 106 is reached, no
  diagnostic is emitted, and the registration thunk ends with that fault; the check the
  settings would have failed is the plain-object one.
\<close>

theorem null_settings_fault:
  "processBlockType (withFilter (\<lambda>v name context. JNull)) twoCategories validBlock
     = ([], Inl TypeError)
   \<and> thrown (experimentalRegisterBlockType (withFilter (\<lambda>v name context. JNull)) twoCategories validBlock)
       = Some TypeError
   \<and> validate_spec (withFilter (\<lambda>v name context. JNull)) JNull = Some InvalidSettingsObject"
  by code_simp

theorem null_settings_fault_witness:
  "snd (processBlockType (withFilter (\<lambda>v name context. JNull)) twoCategories validBlock)
     = Inl TypeError"
  using null_settings_fault by simp

subsection \<open>A block type without a save function\<close>

text \<open>
  C2, as the specification states it, fails on the diagnostic: settings that are not a
  plain object have no callable \<^verbatim>\<open>save\<close> either, and they are rejected by the check
  before, with the error of that check. Here the filter chain returns an empty array.
\<close>

theorem missing_save_counterexample:
  "filteredSettings arrayFilter validBlock = JArr []
   \<and> \<not> isFunction (getProp (filteredSettings arrayFilter validBlock) ''save'')
   \<and> processBlockType arrayFilter twoCategories validBlock = ([objectError], Inr None)
   \<and> saveError \<notin> set (fst (processBlockType arrayFilter twoCategories validBlock))"
  by code_simp

text \<open>
  C2, amended. When the settings that the filter chain returns have no callable
  \<^verbatim>\<open>save\<close>, \<^verbatim>\<open>processBlockType\<close> produces no processed block type, the
  registration thunk dispatches the \<^verbatim>\<open>ADD_UNPROCESSED_BLOCK_TYPE\<close> action and nothing
  else (no \<^verbatim>\<open>ADD_BLOCK_TYPES\<close>), and the map of processed block types is left as it
  was. Where the settings are a plain object and reach the checks, the call returns
  \<^verbatim>\<open>undefined\<close> and the \<^verbatim>\<open>save\<close> error is the one diagnostic of the checks.
\<close>

theorem missing_save_rejected:
  assumes nosave: "\<not> isFunction (getProp (filteredSettings E bt) ''save'')"
  shows "(\<forall>r. snd (processBlockType E sel bt) \<noteq> Inr (Some r))
       \<and> dispatched (experimentalRegisterBlockType E sel bt) = [ADD_UNPROCESSED_BLOCK_TYPE bt]
       \<and> foldl blockTypesReducer m (dispatched (experimentalRegisterBlockType E sel bt)) = m
       \<and> (\<forall>notices s. isPlainObject E (filteredSettings E bt) \<longrightarrow>
             filterStage E bt = (notices, Inr s) \<longrightarrow>
             processBlockType E sel bt = (notices @ [saveError], Inr None))"
proof -
  have none: "snd (processBlockType E sel bt) \<noteq> Inr (Some r)" for r
  proof (cases "filterStage E bt")
    case (Pair notices res)
    show ?thesis
    proof (cases res)
      case (Inl f)
      with Pair show ?thesis by (simp add: filterStage_fault)
    next
      case (Inr s)
      with Pair have st: "filterStage E bt = (notices, Inr s)" by simp
      from filterStage_settings [OF st] nosave
      have "\<not> isFunction (getProp s ''save'')"
        by (simp add: processDeprecated_other)
      then have "validate_spec E s \<noteq> None"
        by (simp add: validate_spec_def)
      then have "snd (validateSettings E sel (getProp (JObj bt) ''name'') s) = None"
        using validate_core by blast
      then show ?thesis
        by (simp add: processBlockType_staged [OF st])
    qed
  qed
  have d: "dispatched (experimentalRegisterBlockType E sel bt) = [ADD_UNPROCESSED_BLOCK_TYPE bt]"
    using none by (simp add: register_dispatched split: sum.splits option.splits)
  have save: "processBlockType E sel bt = (notices @ [saveError], Inr None)"
    if plain: "isPlainObject E (filteredSettings E bt)"
      and st: "filterStage E bt = (notices, Inr s)" for notices s
  proof -
    note dep = filterStage_settings [OF st]
    have "isPlainObject E s" "\<not> isFunction (getProp s ''save'')"
      using dep plain nosave by (simp_all add: processDeprecated_plain processDeprecated_other)
    then have "validateSettings E sel (getProp (JObj bt) ''name'') s = ([saveError], None)"
      by (simp add: validateSettings_unfold)
    then show ?thesis
      by (simp add: processBlockType_staged [OF st])
  qed
  show ?thesis
    using none d save by simp
qed

theorem missing_save_rejected_witness:
  "\<not> isFunction (getProp (filteredSettings noFilters titledNoSave) ''save'')
   \<and> isPlainObject noFilters (filteredSettings noFilters titledNoSave)
   \<and> filterStage noFilters titledNoSave = ([], Inr (JObj titledNoSave))
   \<and> processBlockType noFilters twoCategories titledNoSave = ([saveError], Inr None)
   \<and> dispatched (experimentalRegisterBlockType noFilters twoCategories titledNoSave)
       = [ADD_UNPROCESSED_BLOCK_TYPE titledNoSave]
   \<and> foldl blockTypesReducer [] (dispatched (experimentalRegisterBlockType noFilters twoCategories titledNoSave)) = []"
proof -
  have h: "\<not> isFunction (getProp (filteredSettings noFilters titledNoSave) ''save'')"
    by code_simp
  have p: "isPlainObject noFilters (filteredSettings noFilters titledNoSave)"
    by code_simp
  have s: "filterStage noFilters titledNoSave = ([], Inr (JObj titledNoSave))"
    by code_simp
  from missing_save_rejected [OF h, of twoCategories "[]"] p s show ?thesis
    using h by simp
qed

subsection \<open>A category that is not known\<close>

text \<open>
  C4, as the specification states it, fails: a block type whose category is unknown and
  whose \<^verbatim>\<open>edit\<close> is not callable is rejected by the \<^verbatim>\<open>edit\<close> check, which returns
  before the category steps; no warning is emitted.
\<close>

theorem unknown_category_counterexample:
  "filterStage noFilters bogusBadEdit = ([], Inr (JObj bogusBadEdit))
   \<and> hasProp ''category'' (canonicalizeCategory (JObj bogusBadEdit))
   \<and> \<not> list_ex (\<lambda>c. JStr (slug c) = getProp (canonicalizeCategory (JObj bogusBadEdit)) ''category'')
         (getCategories twoCategories)
   \<and> processBlockType noFilters twoCategories bogusBadEdit = ([editError], Inr None)
   \<and> filter isWarning (fst (processBlockType noFilters twoCategories bogusBadEdit)) = []"
  by code_simp

text \<open>
  C4, amended. Let the settings \<open>s\<close> reach the category steps (a plain object with a
  callable \<^verbatim>\<open>save\<close> and no \<^verbatim>\<open>edit\<close> that is not callable). If, after the legacy
  remapping, \<^verbatim>\<open>category\<close> is present and equals no slug of the known categories,
  then the call emits exactly one warning, which names the block and the category; the
  category is deleted and the checks go on: the call returns the settings without
  \<^verbatim>\<open>category\<close> (and with the normalized icon) if the title and icon checks pass, and
  \<^verbatim>\<open>undefined\<close> otherwise.
\<close>

theorem unknown_category_stripped:
  assumes st: "filterStage E bt = (notices, Inr s)"
    and plain: "isPlainObject E s"
    and save: "isFunction (getProp s ''save'')"
    and edit: "hasProp ''edit'' s \<longrightarrow> isFunction (getProp s ''edit'')"
    and present: "hasProp ''category'' (canonicalizeCategory s)"
    and unknown: "\<not> list_ex (\<lambda>c. JStr (slug c) = getProp (canonicalizeCategory s) ''category'')
                     (getCategories sel)"
  shows "filter isWarning (fst (processBlockType E sel bt))
           = [invalidCategoryWarning (getProp (JObj bt) ''name'')
                (getProp (canonicalizeCategory s) ''category'')]
       \<and> snd (processBlockType E sel bt)
           = (if hasProp ''title'' s \<and> getProp s ''title'' \<noteq> JStr []
                 \<and> typeof (getProp s ''title'') = ''string''
                 \<and> isValidIcon E (src (normalizeIconObject E (getProp s ''icon'')))
              then Inr (Some (setProp (deleteProp (canonicalizeCategory s) ''category'') ''icon''
                                (iconObject (normalizeIconObject E (getProp s ''icon'')))))
              else Inr None)
       \<and> \<not> hasProp ''category''
             (setProp (deleteProp (canonicalizeCategory s) ''category'') ''icon''
                (iconObject (normalizeIconObject E (getProp s ''icon''))))"
proof -
  let ?name = "getProp (JObj bt) ''name''"
  have n: "filter isWarning notices = []"
    using st filterStage_notices by blast
  have nc: "normalizedCategory sel ?name s
           = ([invalidCategoryWarning ?name (getProp (canonicalizeCategory s) ''category'')],
              deleteProp (canonicalizeCategory s) ''category'')"
    using present unknown by (rule normalizedCategory_unknown)
  have w: "filter isWarning (fst (validateSettings E sel ?name s))
             = [invalidCategoryWarning ?name (getProp (canonicalizeCategory s) ''category'')]"
    using plain save edit
    by (simp add: validateSettings_unfold nc Let_def isWarning_simps del: getProp.simps)
  have r: "snd (validateSettings E sel ?name s)
           = (if hasProp ''title'' s \<and> getProp s ''title'' \<noteq> JStr []
                 \<and> typeof (getProp s ''title'') = ''string''
                 \<and> isValidIcon E (src (normalizeIconObject E (getProp s ''icon'')))
              then Some (setProp (deleteProp (canonicalizeCategory s) ''category'') ''icon''
                                (iconObject (normalizeIconObject E (getProp s ''icon''))))
              else None)"
    using plain save edit
    by (auto simp add: validateSettings_unfold nc Let_def simp del: getProp.simps)
  have h: "\<not> hasProp ''category''
             (setProp (deleteProp (canonicalizeCategory s) ''category'') ''icon''
                (iconObject (normalizeIconObject E (getProp s ''icon''))))"
    by (simp add: hasProp_setProp_other hasProp_deleteProp_same)
  show ?thesis
    using w r h by (simp add: processBlockType_staged [OF st] n del: getProp.simps)
qed

theorem unknown_category_stripped_witness:
  "filterStage noFilters bogusCategory = ([], Inr (JObj bogusCategory))
   \<and> isPlainObject noFilters (JObj bogusCategory)
   \<and> isFunction (getProp (JObj bogusCategory) ''save'')
   \<and> \<not> hasProp ''edit'' (JObj bogusCategory)
   \<and> hasProp ''category'' (canonicalizeCategory (JObj bogusCategory))
   \<and> \<not> list_ex (\<lambda>c. JStr (slug c) = getProp (canonicalizeCategory (JObj bogusCategory)) ''category'')
         (getCategories twoCategories)
   \<and> filter isWarning (fst (processBlockType noFilters twoCategories bogusCategory))
       = [invalidCategoryWarning (JStr ''core/x'') (JStr ''bogus'')]
   \<and> snd (processBlockType noFilters twoCategories bogusCategory)
       = Inr (Some (JObj [(''name'', JStr ''core/x''), (''title'', JStr ''X''), (''save'', saveFn),
                          (''icon'', JObj [(''src'', JStr ''block-default'')])]))"
proof -
  have st: "filterStage noFilters bogusCategory = ([], Inr (JObj bogusCategory))"
    by code_simp
  have plain: "isPlainObject noFilters (JObj bogusCategory)"
    by code_simp
  have save: "isFunction (getProp (JObj bogusCategory) ''save'')"
    by code_simp
  have edit: "\<not> hasProp ''edit'' (JObj bogusCategory)"
    by code_simp
  have present: "hasProp ''category'' (canonicalizeCategory (JObj bogusCategory))"
    by code_simp
  have unknown: "\<not> list_ex (\<lambda>c. JStr (slug c) = getProp (canonicalizeCategory (JObj bogusCategory)) ''category'')
         (getCategories twoCategories)"
    by code_simp
  have e1: "getProp (JObj bogusCategory) ''name'' = JStr ''core/x''"
    by code_simp
  have e2: "getProp (canonicalizeCategory (JObj bogusCategory)) ''category'' = JStr ''bogus''"
    by code_simp
  have e3: "(if hasProp ''title'' (JObj bogusCategory) \<and> getProp (JObj bogusCategory) ''title'' \<noteq> JStr []
                 \<and> typeof (getProp (JObj bogusCategory) ''title'') = ''string''
                 \<and> isValidIcon noFilters (src (normalizeIconObject noFilters (getProp (JObj bogusCategory) ''icon'')))
              then Inr (Some (setProp (deleteProp (canonicalizeCategory (JObj bogusCategory)) ''category'') ''icon''
                                (iconObject (normalizeIconObject noFilters (getProp (JObj bogusCategory) ''icon'')))))
              else Inr None)
           = (Inr (Some (JObj [(''name'', JStr ''core/x''), (''title'', JStr ''X''), (''save'', saveFn),
                          (''icon'', JObj [(''src'', JStr ''block-default'')])])) :: fault + jsval option)"
    by code_simp
  from unknown_category_stripped [OF st plain save _ present unknown] edit
  show ?thesis
    using st plain save present unknown by (simp only: e1 e2 e3 simp_thms)
qed

subsection \<open>Legacy categories\<close>

text \<open>
  C5, as the specification states it, fails twice. A block type of category
  \<^verbatim>\<open>common\<close> is accepted without any category when \<^verbatim>\<open>text\<close> is not a known
  category (here the category list is empty): the remapped value is stripped by the step
  that follows. And a category that is not one of the three strings is rewritten all the
  same when it names one of them as a property key: the array \<^verbatim>\<open>['layout']\<close> becomes
  \<^verbatim>\<open>design\<close>.
\<close>

theorem legacy_category_counterexample:
  "getProp (filteredSettings noFilters commonCategory) ''category'' = JStr ''common''
   \<and> snd (processBlockType noFilters noCategories commonCategory)
       = Inr (Some (JObj [(''name'', JStr ''core/x''), (''title'', JStr ''X''), (''save'', saveFn),
                          (''icon'', JObj [(''src'', JStr ''block-default'')])]))
   \<and> getProp (filteredSettings noFilters layoutInArray) ''category'' = JArr [JStr ''layout'']
   \<and> snd (processBlockType noFilters twoCategories layoutInArray)
       = Inr (Some (JObj [(''name'', JStr ''core/x''), (''title'', JStr ''X''), (''save'', saveFn),
                          (''category'', JStr ''design''),
                          (''icon'', JObj [(''src'', JStr ''block-default'')])]))"
  by code_simp

text \<open>
  C5, amended. For an accepted block type whose filtered settings have the category
  \<^verbatim>\<open>common\<close> or \<^verbatim>\<open>formatting\<close>, the result has the category \<^verbatim>\<open>text\<close> if
  \<^verbatim>\<open>text\<close> is a known slug and no category otherwise; likewise \<^verbatim>\<open>layout\<close> and
  \<^verbatim>\<open>design\<close>. A category whose string form is none of the three legacy slugs is
  never rewritten: the result carries it unchanged if it is present and known, and has no
  category otherwise.
\<close>

theorem legacy_category_rewritten:
  assumes acc: "snd (processBlockType E sel bt) = Inr (Some r)"
  shows "(getProp (filteredSettings E bt) ''category'' = JStr ''common''
            \<or> getProp (filteredSettings E bt) ''category'' = JStr ''formatting'' \<longrightarrow>
          (if ''text'' \<in> set (map slug (getCategories sel))
           then getProp r ''category'' = JStr ''text'' else \<not> hasProp ''category'' r))
       \<and> (getProp (filteredSettings E bt) ''category'' = JStr ''layout'' \<longrightarrow>
          (if ''design'' \<in> set (map slug (getCategories sel))
           then getProp r ''category'' = JStr ''design'' else \<not> hasProp ''category'' r))
       \<and> (toStringJs (getProp (filteredSettings E bt) ''category'')
             \<notin> {''common'', ''formatting'', ''layout''} \<longrightarrow>
          (if hasProp ''category'' (filteredSettings E bt)
              \<and> list_ex (\<lambda>c. JStr (slug c) = getProp (filteredSettings E bt) ''category'')
                   (getCategories sel)
           then getProp r ''category'' = getProp (filteredSettings E bt) ''category''
           else \<not> hasProp ''category'' r))"
proof -
  let ?fs = "filteredSettings E bt"
  let ?name = "getProp (JObj bt) ''name''"
  from accepted_result [OF acc] obtain notices s where
    st: "filterStage E bt = (notices, Inr s)" and plain: "isPlainObject E s"
    and r: "r = setProp (snd (normalizedCategory sel ?name s)) ''icon''
                    (iconObject (normalizeIconObject E (getProp s ''icon'')))"
    by blast
  have obj: "isObject s"
    using plain by (rule isPlainObject_isObject)
  have cat: "getProp s ''category'' = getProp ?fs ''category''"
    and hcat: "hasProp ''category'' s = hasProp ''category'' ?fs"
    using filterStage_settings [OF st] by (simp_all add: processDeprecated_other)
  have rc: "getProp r ''category'' = getProp (snd (normalizedCategory sel ?name s)) ''category''"
    and rh: "hasProp ''category'' r = hasProp ''category'' (snd (normalizedCategory sel ?name s))"
    unfolding r by (simp_all add: getProp_setProp_other hasProp_setProp_other)
  have legacy: "(if c \<in> set (map slug (getCategories sel))
           then getProp r ''category'' = JStr c else \<not> hasProp ''category'' r)"
    if "map_of LEGACY_CATEGORY_MAPPING (toStringJs (getProp s ''category'')) = Some c" for c
    unfolding rc rh normalized_category_legacy [OF obj that]
    using obj by (simp add: getProp_setProp_same hasProp_deleteProp_same)
  have other: "(if hasProp ''category'' s
              \<and> list_ex (\<lambda>c. JStr (slug c) = getProp s ''category'') (getCategories sel)
           then getProp r ''category'' = getProp s ''category''
           else \<not> hasProp ''category'' r)"
    if "map_of LEGACY_CATEGORY_MAPPING (toStringJs (getProp s ''category'')) = None"
    unfolding rc rh normalized_category_other [OF that]
    by (simp add: hasProp_deleteProp_same)
  show ?thesis
    using legacy [of "''text''"] legacy [of "''design''"] other
    by (auto simp add: cat hcat map_of_legacy simp del: getProp.simps split: if_splits)
qed

theorem legacy_category_rewritten_witness:
  "snd (processBlockType noFilters twoCategories commonCategory)
     = Inr (Some (JObj [(''name'', JStr ''core/x''), (''title'', JStr ''X''), (''save'', saveFn),
                        (''category'', JStr ''text''),
                        (''icon'', JObj [(''src'', JStr ''block-default'')])]))
   \<and> getProp (filteredSettings noFilters commonCategory) ''category'' = JStr ''common''
   \<and> ''text'' \<in> set (map slug (getCategories twoCategories))
   \<and> getProp (JObj [(''name'', JStr ''core/x''), (''title'', JStr ''X''), (''save'', saveFn),
                        (''category'', JStr ''text''),
                        (''icon'', JObj [(''src'', JStr ''block-default'')])]) ''category''
       = JStr ''text''"
proof -
  have acc: "snd (processBlockType noFilters twoCategories commonCategory)
     = Inr (Some (JObj [(''name'', JStr ''core/x''), (''title'', JStr ''X''), (''save'', saveFn),
                        (''category'', JStr ''text''),
                        (''icon'', JObj [(''src'', JStr ''block-default'')])]))"
    by code_simp
  have c: "getProp (filteredSettings noFilters commonCategory) ''category'' = JStr ''common''"
    by code_simp
  have k: "''text'' \<in> set (map slug (getCategories twoCategories))"
    by code_simp
  from legacy_category_rewritten [OF acc] c k show ?thesis
    using acc by (simp del: getProp.simps)
qed

subsection \<open>Where the category steps run\<close>

text \<open>
  C6, as the specification states it, fails: a block type with an unknown category and
  no \<^verbatim>\<open>save\<close> is rejected with the \<^verbatim>\<open>save\<close> error alone. Normalizing its
  category would have emitted a warning and stripped the field; the rejection was decided
  before that.
\<close>

theorem category_after_checks_counterexample:
  "normalizedCategory twoCategories (JStr ''core/x'') (JObj bogusNoSave)
     = ([invalidCategoryWarning (JStr ''core/x'') (JStr ''bogus'')],
        JObj [(''name'', JStr ''core/x''), (''title'', JStr ''X'')])
   \<and> filterStage noFilters bogusNoSave = ([], Inr (JObj bogusNoSave))
   \<and> processBlockType noFilters twoCategories bogusNoSave = ([saveError], Inr None)"
  by code_simp

text \<open>
  C6, amended. The category steps run after the plain-object, \<^verbatim>\<open>save\<close> and
  \<^verbatim>\<open>edit\<close> checks and before the title and icon checks. A rejection by one of the first
  three checks emits its error and nothing of the category steps; otherwise the diagnostics
  of the category steps come first and the title or icon error, if any, after them. Taking
  the category away never changes whether the settings are rejected.
\<close>

theorem category_between_checks:
  assumes st: "filterStage E bt = (notices, Inr s)"
  shows "(\<forall>rj \<in> {InvalidSettingsObject, SaveNotFunction, EditNotFunction}.
            validate_spec E s = Some rj \<longrightarrow>
            fst (processBlockType E sel bt)
              = notices @ [rejectionError (getProp (JObj bt) ''name'') rj])
       \<and> (validate_spec E s
             \<notin> {Some InvalidSettingsObject, Some SaveNotFunction, Some EditNotFunction} \<longrightarrow>
          fst (processBlockType E sel bt)
            = notices @ fst (normalizedCategory sel (getProp (JObj bt) ''name'') s)
              @ (case validate_spec E s of
                   None \<Rightarrow> []
                 | Some rj \<Rightarrow> [rejectionError (getProp (JObj bt) ''name'') rj]))
       \<and> ((snd (validateSettings E sel (getProp (JObj bt) ''name'') (deleteProp s ''category''))
             = None)
          = (snd (processBlockType E sel bt) = Inr None))"
proof -
  let ?name = "getProp (JObj bt) ''name''"
  have a: "fst (validateSettings E sel ?name s) = [rejectionError ?name rj]"
    if "rj \<in> {InvalidSettingsObject, SaveNotFunction, EditNotFunction}"
      and "validate_spec E s = Some rj" for rj
    using that
    by (auto simp add: validateSettings_unfold validate_spec_def Let_def
        simp del: getProp.simps split: if_splits)
  have b: "fst (validateSettings E sel ?name s)
             = fst (normalizedCategory sel ?name s)
               @ (case validate_spec E s of None \<Rightarrow> [] | Some rj \<Rightarrow> [rejectionError ?name rj])"
    if "validate_spec E s
          \<notin> {Some InvalidSettingsObject, Some SaveNotFunction, Some EditNotFunction}"
    using that
    by (auto simp add: validateSettings_unfold validate_spec_def Let_def
        simp del: getProp.simps split: if_splits)
  have c: "(snd (validateSettings E sel ?name (deleteProp s ''category'')) = None)
             = (snd (validateSettings E sel ?name s) = None)"
    using validate_core [of E sel ?name s] validate_core [of E sel ?name "deleteProp s ''category''"]
    by (simp add: validate_spec_deleteProp del: getProp.simps)
  show ?thesis
    using a b c by (simp add: processBlockType_staged [OF st] del: getProp.simps)
qed

theorem category_between_checks_witness:
  "filterStage noFilters bogusCategory = ([], Inr (JObj bogusCategory))
   \<and> validate_spec noFilters (JObj bogusCategory) = None
   \<and> fst (processBlockType noFilters twoCategories bogusCategory)
       = [invalidCategoryWarning (JStr ''core/x'') (JStr ''bogus'')]"
proof -
  have st: "filterStage noFilters bogusCategory = ([], Inr (JObj bogusCategory))"
    by code_simp
  have v: "validate_spec noFilters (JObj bogusCategory) = None"
    by code_simp
  have n: "fst (normalizedCategory twoCategories (getProp (JObj bogusCategory) ''name'') (JObj bogusCategory))
             = [invalidCategoryWarning (JStr ''core/x'') (JStr ''bogus'')]"
    by code_simp
  from category_between_checks [OF st, of twoCategories] v n show ?thesis
    using st by (simp del: getProp.simps)
qed

subsection \<open>Deprecations\<close>

text \<open>
  C7. Let the filtered settings carry an array \<open>ds\<close> as \<^verbatim>\<open>deprecated\<close> and let the
  deprecations be processed without a fault. Then the settings handed to the checks, and
  the accepted result, carry an array \<open>out\<close> of the same length, whose \<open>i\<close>-th entry is
  the one computed from the \<open>i\<close>-th entry of \<open>ds\<close> (on the submitted block type as it is
  then); every entry of \<open>out\<close> is an object whose keys are in the allowlist; an allowlisted
  key (such as \<^verbatim>\<open>supports\<close>) that the deprecation does not declare is not in the object
  handed to the filter chain, whatever the submitted block type has; and a key that the
  deprecation does not declare and that the filter chain does not add is not in the output
  entry.
\<close>

theorem deprecations_allowlisted:
  assumes st: "filterStage E bt = (notices, Inr s)"
    and dep: "getProp (filteredSettings E bt) ''deprecated'' = JArr ds"
  shows "\<exists>out. getProp s ''deprecated'' = JArr out
           \<and> (\<forall>r. snd (processBlockType E sel bt) = Inr (Some r) \<longrightarrow>
                 getProp r ''deprecated'' = JArr out)
           \<and> length out = length ds
           \<and> (\<forall>i < length ds.
                 fst (deprecationEntry E (getProp (JObj bt) ''name'') (ds ! i)
                        (blockTypeAt E (getProp (JObj bt) ''name'') ds (liveBlockType E bt) i))
                   = Inr (out ! i)
                 \<and> (\<exists>ps. out ! i = JObj ps \<and> set (map fst ps) \<subseteq> set (DEPRECATED_ENTRY_KEYS E))
                 \<and> (\<forall>k current. k \<in> set (DEPRECATED_ENTRY_KEYS E) \<longrightarrow>
                        k \<notin> fst ` set (ownEntries (ds ! i)) \<longrightarrow>
                        \<not> hasProp k (deprecationInput E current (ds ! i)))
                 \<and> (\<forall>k. k \<notin> fst ` set (ownEntries (ds ! i)) \<longrightarrow>
                        (k \<in> fst ` set (ownEntries (deprecationFiltered E (getProp (JObj bt) ''name'')
                                (ds ! i)
                                (blockTypeAt E (getProp (JObj bt) ''name'') ds (liveBlockType E bt) i)))
                           \<longrightarrow> hasProp k (deprecationInput E
                                  (blockTypeAt E (getProp (JObj bt) ''name'') ds (liveBlockType E bt) i)
                                  (ds ! i))) \<longrightarrow>
                        \<not> hasProp k (out ! i)))"
proof -
  let ?name = "getProp (JObj bt) ''name''"
  let ?at = "blockTypeAt E ?name ds (liveBlockType E bt)"
  from processDeprecated_array [OF dep filterStage_settings [OF st]]
  obtain out where m: "fst (mapFault (deprecationEntry E ?name) ds (liveBlockType E bt)) = Inr out"
    and g: "getProp s ''deprecated'' = JArr out"
    by blast
  have acc: "getProp r ''deprecated'' = JArr out"
    if "snd (processBlockType E sel bt) = Inr (Some r)" for r
    using accepted_deprecated [OF st that] g by simp
  have len: "length out = length ds"
    using m by (rule mapFault_length)
  have entry: "fst (deprecationEntry E ?name (ds ! i) (?at i)) = Inr (out ! i)"
    if "i < length ds" for i
    using m that by (rule mapFault_nth)
  have keys: "\<exists>ps. out ! i = JObj ps \<and> set (map fst ps) \<subseteq> set (DEPRECATED_ENTRY_KEYS E)"
    if "i < length ds" for i
    using deprecationEntry_keys [OF entry [OF that]] by auto
  have base: "\<not> hasProp k (deprecationInput E current (ds ! i))"
    if "k \<in> set (DEPRECATED_ENTRY_KEYS E)" and "k \<notin> fst ` set (ownEntries (ds ! i))"
    for i k current
    using that by (simp add: keys_deprecationInput)
  have absent: "\<not> hasProp k (out ! i)"
    if i: "i < length ds" and own: "k \<notin> fst ` set (ownEntries (ds ! i))"
      and add: "k \<in> fst ` set (ownEntries (deprecationFiltered E ?name (ds ! i) (?at i)))
                 \<longrightarrow> hasProp k (deprecationInput E (?at i) (ds ! i))" for i k
  proof
    assume h: "hasProp k (out ! i)"
    from deprecationEntry_keys [OF entry [OF i]] obtain ps where
      ps: "out ! i = JObj ps"
      and ks: "fst ` set ps
           = fst ` set (ownEntries (deprecationFiltered E ?name (ds ! i) (?at i)))
             \<inter> set (DEPRECATED_ENTRY_KEYS E)"
      by (auto simp add: deprecationFiltered_def)
    from h ps ks have "k \<in> fst ` set (ownEntries (deprecationFiltered E ?name (ds ! i) (?at i)))"
      and allowed: "k \<in> set (DEPRECATED_ENTRY_KEYS E)"
      by auto
    with add have "hasProp k (deprecationInput E (?at i) (ds ! i))" by blast
    with base [OF allowed own] show False by blast
  qed
  show ?thesis
    using g acc len entry keys base absent by (intro exI [of _ out]) blast
qed

theorem deprecations_allowlisted_witness:
  "filterStage taggingFilter supportsBlock
     = ([], Inr (setProp (filteredSettings taggingFilter supportsBlock) ''deprecated''
                   (JArr [JObj [(''attributes'', JObj [])], JObj [(''save'', saveFn)]])))
   \<and> getProp (filteredSettings taggingFilter supportsBlock) ''deprecated''
       = JArr [JObj [(''attributes'', JObj []), (''extra'', JNum 1)], JObj [(''save'', saveFn)]]
   \<and> (\<exists>out. getProp (setProp (filteredSettings taggingFilter supportsBlock) ''deprecated''
                   (JArr [JObj [(''attributes'', JObj [])], JObj [(''save'', saveFn)]])) ''deprecated''
              = JArr out
            \<and> length out = 2 \<and> \<not> hasProp ''supports'' (out ! 0) \<and> \<not> hasProp ''injected'' (out ! 0))"
proof -
  let ?ds = "[JObj [(''attributes'', JObj []), (''extra'', JNum 1)], JObj [(''save'', saveFn)]]"
  let ?s = "setProp (filteredSettings taggingFilter supportsBlock) ''deprecated''
                   (JArr [JObj [(''attributes'', JObj [])], JObj [(''save'', saveFn)]])"
  have st: "filterStage taggingFilter supportsBlock = ([], Inr ?s)"
    by code_simp
  have dep: "getProp (filteredSettings taggingFilter supportsBlock) ''deprecated'' = JArr ?ds"
    by code_simp
  from deprecations_allowlisted [OF st dep, of twoCategories]
  obtain out where g: "getProp ?s ''deprecated'' = JArr out" and len: "length out = length ?ds"
    by blast
  have v: "getProp ?s ''deprecated''
             = JArr [JObj [(''attributes'', JObj [])], JObj [(''save'', saveFn)]]"
    by code_simp
  from g v have "out = [JObj [(''attributes'', JObj [])], JObj [(''save'', saveFn)]]"
    by simp
  then have "\<not> hasProp ''supports'' (out ! 0) \<and> \<not> hasProp ''injected'' (out ! 0)"
    by simp
  with g len show ?thesis
    using st dep by auto
qed

subsection \<open>The registration thunk\<close>

text \<open>
  C8. The registration thunk dispatches \<^verbatim>\<open>ADD_UNPROCESSED_BLOCK_TYPE\<close> with the raw
  block type as its first event, before any diagnostic of the processing, whatever the
  processing does; when the processing yields no processed block type (a rejection or a
  fault), this action is the only one dispatched.
\<close>

theorem raw_candidate_recorded_first:
  "events (experimentalRegisterBlockType E sel bt)
     = Dispatched (ADD_UNPROCESSED_BLOCK_TYPE bt)
       # map Logged (fst (processBlockType E sel bt))
       @ (case snd (processBlockType E sel bt) of
            Inr (Some p) \<Rightarrow> [Dispatched (addBlockTypes p)]
          | _ \<Rightarrow> [])
   \<and> hd (dispatched (experimentalRegisterBlockType E sel bt)) = ADD_UNPROCESSED_BLOCK_TYPE bt
   \<and> ((\<forall>p. snd (processBlockType E sel bt) \<noteq> Inr (Some p)) \<longrightarrow>
        dispatched (experimentalRegisterBlockType E sel bt) = [ADD_UNPROCESSED_BLOCK_TYPE bt])"
  by (auto simp add: register_events register_dispatched split: sum.splits option.splits)

theorem raw_candidate_recorded_first_witness:
  "snd (processBlockType noFilters twoCategories bogusNoSave) = Inr None
   \<and> events (experimentalRegisterBlockType noFilters twoCategories bogusNoSave)
       = [Dispatched (ADD_UNPROCESSED_BLOCK_TYPE bogusNoSave), Logged saveError]
   \<and> dispatched (experimentalRegisterBlockType noFilters twoCategories bogusNoSave)
       = [ADD_UNPROCESSED_BLOCK_TYPE bogusNoSave]"
proof -
  have p: "processBlockType noFilters twoCategories bogusNoSave = ([saveError], Inr None)"
    by code_simp
  from raw_candidate_recorded_first [of noFilters twoCategories bogusNoSave] show ?thesis
    by (simp add: p)
qed

subsection \<open>Reapplying the filters\<close>




subsection \<open>The merge base of a deprecation\<close>

text \<open>
  C10, as the specification states it, fails: line 71 copies the submitted block type
  shallowly, so a live filter pass that changes a value of the live definition in place
  changes the value that the submitted block type holds, and the merge base carries the
  change. Here the filter pushes a keyword onto the \<^verbatim>\<open>keywords\<close> array of the live
  definition.
\<close>

theorem merge_base_counterexample:
  "getProp (JObj keywordsBlock) ''keywords'' = JArr [JStr ''a'']
   \<and> getProp (filteredSettings pushingFilter keywordsBlock) ''keywords''
       = JArr [JStr ''a'', JStr ''added'']
   \<and> getProp (filteredSettings pushingFilter keywordsBlock) ''deprecated''
       = JArr [JObj [(''attributes'', JObj [])]]
   \<and> getProp (deprecationInput pushingFilter
                 (blockTypeAt pushingFilter (JStr ''core/x'') [JObj [(''attributes'', JObj [])]]
                    (liveBlockType pushingFilter keywordsBlock) 0)
                 (JObj [(''attributes'', JObj [])])) ''keywords''
       = JArr [JStr ''a'', JStr ''added'']"
  by code_simp

text \<open>
  C10, amended. Let the filtered settings carry an array \<open>ds\<close> as \<^verbatim>\<open>deprecated\<close> and
  let the deprecations be processed without a fault. Each processed entry is what the
  allowlist keeps of the filter chain run on the object merged for that deprecation. In
  that object, a key that the deprecation does not declare has the value that the
  submitted block type holds when the deprecation is processed, and is absent if it is an
  allowlisted key or if the submitted block type does not have it; the settings that the
  live pass returned play no part: any settings with the same \<^verbatim>\<open>deprecated\<close> array give
  the same processed array. When the filter chain changes nothing of the submitted block
  type in place, that is the block type as it was submitted.
\<close>

theorem merge_base_from_submitted:
  assumes st: "filterStage E bt = (notices, Inr s)"
    and dep: "getProp (filteredSettings E bt) ''deprecated'' = JArr ds"
  shows "(\<exists>out. getProp s ''deprecated'' = JArr out \<and> length out = length ds
            \<and> (\<forall>i < length ds.
                  out ! i = JObj (fromEntries
                    (filter (\<lambda>(key, _). key \<in> set (DEPRECATED_ENTRY_KEYS E))
                       (ownEntries (deprecationFiltered E (getProp (JObj bt) ''name'') (ds ! i)
                          (blockTypeAt E (getProp (JObj bt) ''name'') ds (liveBlockType E bt) i)))))))
       \<and> (\<forall>d current k. k \<notin> fst ` set (ownEntries d) \<longrightarrow>
            getProp (deprecationInput E current d) k
              = (if k \<in> set (DEPRECATED_ENTRY_KEYS E) then JUndefined
                 else getProp (JObj current) k)
            \<and> hasProp k (deprecationInput E current d)
              = (hasProp k (JObj current) \<and> k \<notin> set (DEPRECATED_ENTRY_KEYS E)))
       \<and> ((\<forall>hook v name context current.
              snd (applyFilters E hook v name context current) = current) \<longrightarrow>
           (\<forall>i. blockTypeAt E (getProp (JObj bt) ''name'') ds (liveBlockType E bt) i = bt))
       \<and> (\<forall>s2. getProp s2 ''deprecated'' = JArr ds \<longrightarrow>
             (\<exists>s2'. fst (processDeprecated E (getProp (JObj bt) ''name'') s2 (liveBlockType E bt))
                       = Inr s2'
                \<and> getProp s2' ''deprecated'' = getProp s ''deprecated''))"
proof -
  let ?name = "getProp (JObj bt) ''name''"
  let ?at = "blockTypeAt E ?name ds (liveBlockType E bt)"
  have a: "getProp (deprecationInput E current d) k
              = (if k \<in> set (DEPRECATED_ENTRY_KEYS E) then JUndefined
                 else getProp (JObj current) k)
            \<and> hasProp k (deprecationInput E current d)
              = (hasProp k (JObj current) \<and> k \<notin> set (DEPRECATED_ENTRY_KEYS E))"
    if "k \<notin> fst ` set (ownEntries d)" for d current k
    using that deprecationInput_base [OF that, of E current]
    by (simp add: keys_deprecationInput del: getProp.simps)
  have b: "?at i = bt"
    if "\<forall>hook v name context current. snd (applyFilters E hook v name context current) = current"
    for i
    using that by (simp add: blockTypeAt_unchanged liveBlockType_def)
  have c: "\<exists>s2'. fst (processDeprecated E ?name s2 (liveBlockType E bt)) = Inr s2'
                \<and> getProp s2' ''deprecated'' = getProp s ''deprecated''"
    if "getProp s2 ''deprecated'' = JArr ds" for s2
    using processDeprecated_same_array [OF dep that filterStage_settings [OF st]] .
  from processDeprecated_array [OF dep filterStage_settings [OF st]]
  obtain out where m: "fst (mapFault (deprecationEntry E ?name) ds (liveBlockType E bt)) = Inr out"
    and g: "getProp s ''deprecated'' = JArr out"
    by blast
  have e: "out ! i = JObj (fromEntries
                    (filter (\<lambda>(key, _). key \<in> set (DEPRECATED_ENTRY_KEYS E))
                       (ownEntries (deprecationFiltered E ?name (ds ! i) (?at i)))))"
    if "i < length ds" for i
    using deprecationEntry_object [OF mapFault_nth [OF m that]]
    by (simp add: deprecationFiltered_def)
  have t: "\<exists>out. getProp s ''deprecated'' = JArr out \<and> length out = length ds
            \<and> (\<forall>i < length ds.
                  out ! i = JObj (fromEntries
                    (filter (\<lambda>(key, _). key \<in> set (DEPRECATED_ENTRY_KEYS E))
                       (ownEntries (deprecationFiltered E ?name (ds ! i) (?at i))))))"
    using g e mapFault_length [OF m] by blast
  show ?thesis
    using t a b c by blast
qed

theorem merge_base_from_submitted_witness:
  "filterStage retitlingFilter oneDeprecation
     = ([], Inr (setProp (filteredSettings retitlingFilter oneDeprecation) ''deprecated''
                   (JArr [JObj [(''attributes'', JObj [])]])))
   \<and> getProp (filteredSettings retitlingFilter oneDeprecation) ''deprecated''
       = JArr [JObj [(''attributes'', JObj [])]]
   \<and> getProp (filteredSettings retitlingFilter oneDeprecation) ''title'' = JStr ''Changed''
   \<and> hasProp ''extra'' (filteredSettings retitlingFilter oneDeprecation)
   \<and> blockTypeAt retitlingFilter (JStr ''core/x'') [JObj [(''attributes'', JObj [])]]
         (liveBlockType retitlingFilter oneDeprecation) 0 = oneDeprecation
   \<and> getProp (deprecationInput retitlingFilter oneDeprecation (JObj [(''attributes'', JObj [])]))
        ''title'' = JStr ''X''
   \<and> \<not> hasProp ''extra''
         (deprecationInput retitlingFilter oneDeprecation (JObj [(''attributes'', JObj [])]))"
proof -
  let ?d = "JObj [(''attributes'', JObj [])]"
  have st: "filterStage retitlingFilter oneDeprecation
     = ([], Inr (setProp (filteredSettings retitlingFilter oneDeprecation) ''deprecated''
                   (JArr [?d])))"
    by code_simp
  have dep: "getProp (filteredSettings retitlingFilter oneDeprecation) ''deprecated'' = JArr [?d]"
    by code_simp
  have live: "getProp (filteredSettings retitlingFilter oneDeprecation) ''title'' = JStr ''Changed''"
    "hasProp ''extra'' (filteredSettings retitlingFilter oneDeprecation)"
    by code_simp+
  have pure: "\<forall>hook v name context current.
      snd (applyFilters retitlingFilter hook v name context current) = current"
    by (simp add: retitlingFilter_def withFilter_def)
  have own: "''title'' \<notin> fst ` set (ownEntries ?d)" "''extra'' \<notin> fst ` set (ownEntries ?d)"
    by simp_all
  have sub: "getProp (JObj oneDeprecation) ''title'' = JStr ''X''"
    "\<not> hasProp ''extra'' (JObj oneDeprecation)"
    "''title'' \<notin> set (DEPRECATED_ENTRY_KEYS retitlingFilter)"
    "getProp (JObj oneDeprecation) ''name'' = JStr ''core/x''"
    by code_simp+
  note main = merge_base_from_submitted [OF st dep]
  from main pure
  have at: "\<forall>i. blockTypeAt retitlingFilter (getProp (JObj oneDeprecation) ''name'') [?d]
         (liveBlockType retitlingFilter oneDeprecation) i = oneDeprecation"
    by blast
  from main
  have "\<forall>k. k \<notin> fst ` set (ownEntries ?d) \<longrightarrow>
            getProp (deprecationInput retitlingFilter oneDeprecation ?d) k
              = (if k \<in> set (DEPRECATED_ENTRY_KEYS retitlingFilter) then JUndefined
                 else getProp (JObj oneDeprecation) k)
            \<and> hasProp k (deprecationInput retitlingFilter oneDeprecation ?d)
              = (hasProp k (JObj oneDeprecation)
                 \<and> k \<notin> set (DEPRECATED_ENTRY_KEYS retitlingFilter))"
    by blast
  from this [rule_format, OF own(1)] this [rule_format, OF own(2)] sub
  have "getProp (deprecationInput retitlingFilter oneDeprecation ?d) ''title'' = JStr ''X''"
    "\<not> hasProp ''extra'' (deprecationInput retitlingFilter oneDeprecation ?d)"
    by (simp_all del: getProp.simps hasProp.simps)
  with st dep live at [rule_format, of 0] sub(4) show ?thesis
    by (simp del: getProp.simps hasProp.simps)
qed

end
